theory Spec2Isabelle
  imports Complex_Main "HOL-Library.AList"
begin

section \<open>JavaScript values, errors and the record store's interface\<close>

text \<open>
  The repository is JavaScript glue between a field-service CRM, an Airtable base and
  QuickBooks. Amounts of money are modelled as exact rationals: their sums, differences
  and quotients are the mathematical ones. Where the rounding of IEEE doubles decides an
  outcome, in the threshold test of the fuzzy search, the arithmetic is that of doubles
  (\<open>double\<close> below). A JavaScript object used as a dictionary is the association list
  of its own properties in insertion order (\<open>map_of\<close> reads a key,
  \<open>AList.update\<close> assigns one) together with what it inherits: reading a key that is
  not its own finds the member of that name of \<open>Object.prototype\<close>, if there is one.
  An exception is a value \<open>Inl e\<close> of a sum type.
\<close>

datatype error = TypeError | RangeError | UpstreamError | ConfigurationError

datatype jsval = Str string | Num rat

type_synonym row_fields = "(string \<times> jsval) list"

text \<open>
  The names of the members of \<open>Object.prototype\<close>, which every object written
  \<open>{}\<close> inherits. Each member is a function, and \<open>__proto__\<close> reads as
  \<open>Object.prototype\<close> itself, so every one of them counts as true in a test; an
  assignment to \<open>obj['__proto__']\<close> sets the prototype of \<open>obj\<close> and gives it no
  property of its own.
\<close>

definition object_prototype :: "string list" where
  "object_prototype =
     [''constructor'', ''__defineGetter__'', ''__defineSetter__'', ''hasOwnProperty'',
      ''__lookupGetter__'', ''__lookupSetter__'', ''isPrototypeOf'', ''propertyIsEnumerable'',
      ''toString'', ''valueOf'', ''__proto__'', ''toLocaleString'']"

definition inherited :: "string \<Rightarrow> bool" where
  "inherited key = (key \<in> set object_prototype)"

text \<open>
  A JavaScript number is an IEEE 754 double. \<open>double x\<close> is the double nearest to
  the rational \<open>x\<close>, the one with the even significand on a tie: 53 significant bits
  above \<open>2 ^ -1022\<close>, multiples of \<open>2 ^ -1074\<close> below. A decimal literal such as
  \<open>0.8\<close> is \<open>double (double (4 / 5))\<close>, and \<open>a - b\<close> on two doubles is
  \<open>double_sub a b\<close>. Results beyond the largest double do not occur in \<open>1 - t\<close>
  and are not modelled.
\<close>

function bit_length :: "int \<Rightarrow> int" where
  "bit_length k = (if k \<le> 0 then 0 else 1 + bit_length (k div 2))"
  by auto

termination
  by (relation "measure nat") auto

declare bit_length.simps [simp del]

definition pow2 :: "int \<Rightarrow> rat" where
  "pow2 e = (if 0 \<le> e then 2 ^ nat e else 1 / 2 ^ nat (- e))"

text \<open>The exponent \<open>e\<close> of a positive \<open>x\<close>: \<open>2 ^ e \<le> x < 2 ^ (e + 1)\<close>.\<close>

definition floor_log2 :: "rat \<Rightarrow> int" where
  "floor_log2 x =
     (case quotient_of x of
        (p, q) \<Rightarrow>
          (let k = bit_length p - bit_length q
           in if pow2 k \<le> x then k else k - 1))"

definition round_half_even :: "rat \<Rightarrow> int" where
  "round_half_even q =
     (let f = \<lfloor>q\<rfloor>; d = q - of_int f
      in if d < 1 / 2 then f else if 1 / 2 < d then f + 1 else if even f then f else f + 1)"

definition double :: "rat \<Rightarrow> rat" where
  "double x =
     (if x = 0 then 0
      else (let e = max (floor_log2 \<bar>x\<bar>) (- 1022);
                ulp = pow2 (e - 52)
            in of_int (round_half_even (x / ulp)) * ulp))"

definition double_sub :: "rat \<Rightarrow> rat \<Rightarrow> rat" where
  "double_sub a b = double (a - b)"

text \<open>
  An Airtable record as the client returns it: \<open>getId()\<close> and \<open>fields\<close>.
  Record ids are opaque to the code; the model numbers them.
\<close>

record at_row =
  rec_id :: nat
  rec_fields :: row_fields

text \<open>The options object handed to \<open>table.select\<close>.\<close>

record query =
  filterByFormula :: "string option"
  q_fields :: "string list option"
  maxRecords :: nat

text \<open>
  \<open>String.prototype.toLowerCase\<close> on the ASCII letters (a HOL character is a byte).
\<close>

definition lower_char :: "char \<Rightarrow> char" where
  "lower_char c = (let n = (of_char c :: nat) in if 65 \<le> n \<and> n \<le> 90 then char_of (n + 32) else c)"

definition toLowerCase :: "string \<Rightarrow> string" where
  "toLowerCase s = map lower_char s"

section \<open>Name reconciliation: findLeadByName and fuzzySearchLeads (src/lib/airtable.js)\<close>

text \<open>
  The two collaborators are parameters. \<open>select q\<close> is the outcome of awaiting
  \<open>leadsTable.select(q).firstPage()\<close> or \<open>.all()\<close>: the records in the store's
  order, or a rejection. \<open>fuse th items pat\<close> is the outcome of
  \<open>new Fuse(items, {keys: ['name'], threshold: th, includeScore: true}).search(pat)\<close>:
  results with their Fuse score (0 is a perfect match), or an exception.
  Every call of a collaborator is written to a trace, in the order of the calls.
\<close>

record fuse_item =
  item_id :: nat
  item_name :: "jsval option"
  item_record :: at_row

record fuse_result =
  item :: fuse_item
  score :: rat

type_synonym store_select = "query \<Rightarrow> error + at_row list"
type_synonym fuse_search = "rat \<Rightarrow> fuse_item list \<Rightarrow> string \<Rightarrow> error + fuse_result list"

datatype call = StoreSelect query | Scorer rat string

definition all_names_query :: query where
  "all_names_query = \<lparr>filterByFormula = None, q_fields = Some [''Customer Name''], maxRecords = 1000\<rparr>"

definition to_fuse_item :: "at_row \<Rightarrow> fuse_item" where
  "to_fuse_item r = \<lparr>item_id = rec_id r, item_name = map_of (rec_fields r) ''Customer Name'', item_record = r\<rparr>"

text \<open>
  \<open>fuzzySearchLeads\<close>: the whole body is inside \<open>try\<close>, and the \<open>catch\<close> returns
  \<open>null\<close>, so the function never raises; \<open>None\<close> is \<open>null\<close>. The threshold and
  the Fuse scores are doubles, and \<open>1 - threshold\<close> is computed in doubles, once for
  Fuse's configuration and once for the test on the first result.
\<close>

definition fuzzySearchLeads ::
  "store_select \<Rightarrow> fuse_search \<Rightarrow> string \<Rightarrow> rat \<Rightarrow> at_row option \<times> call list" where
  "fuzzySearchLeads select fuse customerName threshold =
     (case select all_names_query of
        Inl e \<Rightarrow> (None, [StoreSelect all_names_query])
      | Inr allRecords \<Rightarrow>
          (let leads = map to_fuse_item allRecords;
               trace = [StoreSelect all_names_query, Scorer (double_sub 1 threshold) customerName]
           in case fuse (double_sub 1 threshold) leads customerName of
                Inl e \<Rightarrow> (None, trace)
              | Inr results \<Rightarrow>
                  (case results of
                     [] \<Rightarrow> (None, trace)
                   | best # _ \<Rightarrow>
                       if score best \<le> double_sub 1 threshold
                       then (Some \<lparr>rec_id = item_id (item best),
                                    rec_fields = rec_fields (item_record (item best))\<rparr>, trace)
                       else (None, trace))))"

definition exact_query :: "string \<Rightarrow> query" where
  "exact_query customerName =
     \<lparr>filterByFormula =
        Some (''SEARCH('' @ [CHR 0x22] @ toLowerCase customerName @ [CHR 0x22]
              @ '', LOWER({Customer Name})) > 0''),
      q_fields = None, maxRecords = 10\<rparr>"

text \<open>
  \<open>findLeadByName\<close>: \<open>None\<close> as the name is \<open>null\<close> or \<open>undefined\<close>, on which
  \<open>customerName.toLowerCase()\<close> raises a TypeError while the query's argument is still
  being built; the \<open>catch\<close> logs and rethrows.
\<close>

definition findLeadByName ::
  "store_select \<Rightarrow> fuse_search \<Rightarrow> string option \<Rightarrow> rat \<Rightarrow> (error + at_row option) \<times> call list" where
  "findLeadByName select fuse customerName threshold =
     (case customerName of
        None \<Rightarrow> (Inl TypeError, [])
      | Some name \<Rightarrow>
          (case select (exact_query name) of
             Inl e \<Rightarrow> (Inl e, [StoreSelect (exact_query name)])
           | Inr records \<Rightarrow>
               (case records of
                  [] \<Rightarrow>
                    (case fuzzySearchLeads select fuse name threshold of
                       (r, trace) \<Rightarrow> (Inr r, StoreSelect (exact_query name) # trace))
                | record # _ \<Rightarrow>
                    (Inr (Some \<lparr>rec_id = rec_id record, rec_fields = rec_fields record\<rparr>),
                     [StoreSelect (exact_query name)]))))"

text \<open>
  The score the specification speaks of, \<open>1 - fuseScore\<close> as JavaScript computes it:
  1 is identical.
\<close>

definition similarity :: "fuse_result \<Rightarrow> rat" where
  "similarity r = double_sub 1 (score r)"

definition is_scorer_call :: "call \<Rightarrow> bool" where
  "is_scorer_call c = (case c of Scorer _ _ \<Rightarrow> True | StoreSelect _ \<Rightarrow> False)"


section \<open>Monthly expenses (src/lib/quickbooks.js)\<close>

text \<open>
  \<open>getMonthlyExpenses\<close> awaits \<open>getExpensesByCategory\<close> inside \<open>try\<close>; the
  parameter is the outcome of everything the \<open>try\<close> block does before its
  \<open>return\<close> (the two date strings and the awaited call). The properties
  \<open>advertising\<close> and \<open>promotional\<close> of its result are read as they are; \<open>None\<close>
  is \<open>undefined\<close> (the value has no such property), and for \<open>totalSpend\<close> it is
  the \<open>NaN\<close> of a sum with \<open>undefined\<close>.
\<close>

record expense_totals =
  advertising :: "rat option"
  promotional :: "rat option"

record monthly_expenses =
  me_month :: int
  me_year :: int
  adSpend :: "rat option"
  promoSpend :: "rat option"
  totalSpend :: "rat option"

definition js_add :: "rat option \<Rightarrow> rat option \<Rightarrow> rat option" where
  "js_add a b = (case (a, b) of (Some x, Some y) \<Rightarrow> Some (x + y) | _ \<Rightarrow> None)"


definition zero_expenses :: "int \<Rightarrow> int \<Rightarrow> monthly_expenses" where
  "zero_expenses month year =
     \<lparr>me_month = month, me_year = year, adSpend = Some 0, promoSpend = Some 0, totalSpend = Some 0\<rparr>"

definition getMonthlyExpenses :: "(error + expense_totals) \<Rightarrow> int \<Rightarrow> int \<Rightarrow> monthly_expenses" where
  "getMonthlyExpenses getExpensesByCategory month year =
     (case getExpensesByCategory of
        Inr expenses \<Rightarrow>
          \<lparr>me_month = month, me_year = year,
           adSpend = advertising expenses,
           promoSpend = promotional expenses,
           totalSpend = js_add (advertising expenses) (promotional expenses)\<rparr>
      | Inl e \<Rightarrow> zero_expenses month year)"

section \<open>A table of the record store\<close>

text \<open>
  The store is the system of record; the model of a table is the list of its records in
  the store's order and the number the next created record gets. \<open>select\<close> returns
  the records that satisfy the filter, in that order, cut at \<open>maxRecords\<close>;
  \<open>update\<close> patches every record of the given id and leaves the others alone;
  \<open>create\<close> appends. The store's calls are modelled on their successful outcome.
\<close>

record 'r store =
  rows :: "'r list"
  next_id :: nat

definition store_select :: "('r \<Rightarrow> bool) \<Rightarrow> nat \<Rightarrow> 'r store \<Rightarrow> 'r list" where
  "store_select matches maxRecs st = take maxRecs (filter matches (rows st))"

definition store_update :: "('r \<Rightarrow> nat) \<Rightarrow> nat \<Rightarrow> ('r \<Rightarrow> 'r) \<Rightarrow> 'r store \<Rightarrow> 'r store" where
  "store_update idf i patch st = st\<lparr>rows := map (\<lambda>r. if idf r = i then patch r else r) (rows st)\<rparr>"

definition store_create :: "(nat \<Rightarrow> 'r) \<Rightarrow> 'r store \<Rightarrow> 'r \<times> 'r store" where
  "store_create mk st =
     (mk (next_id st), st\<lparr>rows := rows st @ [mk (next_id st)], next_id := Suc (next_id st)\<rparr>)"

section \<open>Lead intake: upsertLead (src/lib/airtable.js)\<close>

record customer_data =
  cd_id :: "jsval option"
  cd_name :: "string option"
  cd_email :: "string option"
  cd_phone :: "string option"
  cd_leadSource :: "string option"
  cd_dateCreated :: "string option"
  cd_address :: "string option"
  cd_notes :: "string option"
  cd_tags :: "string list option"

text \<open>An object literal whose property values may be \<open>undefined\<close> (\<open>None\<close>).\<close>

type_synonym js_object = "(string \<times> jsval option) list"

definition truthy_str :: "string option \<Rightarrow> bool" where
  "truthy_str s = (case s of None \<Rightarrow> False | Some t \<Rightarrow> t \<noteq> [])"

definition truthy :: "jsval option \<Rightarrow> bool" where
  "truthy v = (case v of None \<Rightarrow> False | Some (Str t) \<Rightarrow> t \<noteq> [] | Some (Num n) \<Rightarrow> n \<noteq> 0)"

definition or_empty :: "string option \<Rightarrow> string" where
  "or_empty s = (case s of None \<Rightarrow> [] | Some t \<Rightarrow> t)"

fun join :: "string \<Rightarrow> string list \<Rightarrow> string" where
  "join sep [] = []"
| "join sep [x] = x"
| "join sep (x # y # ys) = x @ sep @ join sep (y # ys)"

text \<open>\<open>s.replace(/c/g, r)\<close> for a one-character pattern.\<close>

definition replace_all :: "char \<Rightarrow> string \<Rightarrow> string \<Rightarrow> string" where
  "replace_all c r s = concat (map (\<lambda>x. if x = c then r else [x]) s)"

definition escape_formula :: "string \<Rightarrow> string" where
  "escape_formula s =
     replace_all (CHR 0x5C) [CHR 0x5C, CHR 0x5C] (replace_all (CHR 0x22) [CHR 0x5C, CHR 0x22] s)"

definition upsert_formula :: "string \<Rightarrow> string option \<Rightarrow> string" where
  "upsert_formula name email =
     ''OR({Customer Name} = '' @ [CHR 0x22] @ escape_formula name @ [CHR 0x22]
     @ (if truthy_str email
        then '', {Email} = '' @ [CHR 0x22] @ escape_formula (or_empty email) @ [CHR 0x22]
        else [])
     @ '')''"

text \<open>
  Writing an object to a record: a property that is \<open>undefined\<close> is not sent, every
  other property replaces the field of its name.
\<close>

fun merge_fields :: "row_fields \<Rightarrow> js_object \<Rightarrow> row_fields" where
  "merge_fields fs [] = fs"
| "merge_fields fs ((k, None) # obj) = merge_fields fs obj"
| "merge_fields fs ((k, Some v) # obj) = merge_fields (AList.update k v fs) obj"

record upsert_result =
  ur_id :: nat
  ur_fields :: row_fields
  wasUpdated :: bool

text \<open>
  \<open>formattedDate\<close>: \<open>isoDate\<close> is \<open>new Date(d).toISOString().split('T')[0]\<close>, which
  raises a RangeError on a string that is no date (\<open>None\<close>).
\<close>

definition format_date :: "(string \<Rightarrow> string option) \<Rightarrow> string option \<Rightarrow> error + string option" where
  "format_date isoDate dateCreated =
     (if truthy_str dateCreated
      then (case isoDate (or_empty dateCreated) of None \<Rightarrow> Inl RangeError | Some d \<Rightarrow> Inr (Some d))
      else Inr dateCreated)"

definition lead_recordData :: "customer_data \<Rightarrow> string \<Rightarrow> string option \<Rightarrow> js_object" where
  "lead_recordData cd name formattedDate =
     [(''Customer Name'', Some (Str name)),
      (''Email'', map_option Str (cd_email cd)),
      (''Phone'', map_option Str (cd_phone cd)),
      (''Lead Source'', map_option Str (cd_leadSource cd)),
      (''Date Created'', map_option Str formattedDate),
      (''HCP Customer ID'', cd_id cd),
      (''Address'', Some (Str (or_empty (cd_address cd)))),
      (''Notes'', Some (Str (or_empty (cd_notes cd)))),
      (''Tags'', Some (Str (case cd_tags cd of None \<Rightarrow> [] | Some ts \<Rightarrow> join '', '' ts)))]"

text \<open>
  The guard of the source on the payment fields:
  \<open>fields['Payment Status'] !== 'Pending' || fields['Payment Amount'] > 0\<close>.
\<close>

definition has_payment_state :: "row_fields \<Rightarrow> bool" where
  "has_payment_state fs =
     (map_of fs ''Payment Status'' \<noteq> Some (Str ''Pending'')
      \<or> (case map_of fs ''Payment Amount'' of Some (Num a) \<Rightarrow> a > 0 | _ \<Rightarrow> False))"

definition lead_updateData :: "row_fields \<Rightarrow> js_object \<Rightarrow> js_object" where
  "lead_updateData existing recordData =
     (let updateData1 =
            (if has_payment_state existing
             then AList.delete ''Payment Amount'' (AList.delete ''Payment Status'' recordData)
             else recordData)
      in if truthy (map_of existing ''Date Created'')
         then AList.delete ''Date Created'' updateData1
         else updateData1)"

text \<open>
  \<open>upsertLead\<close>. \<open>sem\<close> is the store's reading of a filter formula: the predicate
  it selects by, or \<open>None\<close> when the store rejects the formula. A missing name raises a
  TypeError at \<open>customerData.name.replace\<close>.
\<close>

definition upsertLead ::
  "(string \<Rightarrow> (at_row \<Rightarrow> bool) option) \<Rightarrow> (string \<Rightarrow> string option) \<Rightarrow> customer_data
   \<Rightarrow> at_row store \<Rightarrow> error + upsert_result \<times> at_row store" where
  "upsertLead sem isoDate customerData leadsTable =
     (case cd_name customerData of
        None \<Rightarrow> Inl TypeError
      | Some name \<Rightarrow>
          (case sem (upsert_formula name (cd_email customerData)) of
             None \<Rightarrow> Inl UpstreamError
           | Some matches \<Rightarrow>
               (let existingRecords = store_select matches 1 leadsTable in
                case format_date isoDate (cd_dateCreated customerData) of
                  Inl e \<Rightarrow> Inl e
                | Inr formattedDate \<Rightarrow>
                    (let recordData = lead_recordData customerData name formattedDate in
                     case existingRecords of
                       existingRecord # _ \<Rightarrow>
                         (let updateData = lead_updateData (rec_fields existingRecord) recordData
                          in Inr (\<lparr>ur_id = rec_id existingRecord,
                                   ur_fields = merge_fields (rec_fields existingRecord) updateData,
                                   wasUpdated = True\<rparr>,
                                  store_update rec_id (rec_id existingRecord)
                                    (\<lambda>r. r\<lparr>rec_fields := merge_fields (rec_fields r) updateData\<rparr>)
                                    leadsTable))
                     | [] \<Rightarrow>
                         (let recordData' =
                                AList.update ''Payment Amount'' (Some (Num 0))
                                  (AList.update ''Payment Status'' (Some (Str ''Pending'')) recordData)
                          in case store_create
                                    (\<lambda>i. \<lparr>rec_id = i, rec_fields = merge_fields [] recordData'\<rparr>)
                                    leadsTable of
                               (record, leadsTable') \<Rightarrow>
                                 Inr (\<lparr>ur_id = rec_id record, ur_fields = rec_fields record,
                                       wasUpdated = False\<rparr>, leadsTable'))))))"

text \<open>The value of one field over the whole table, record by record.\<close>

definition column :: "string \<Rightarrow> at_row store \<Rightarrow> jsval option list" where
  "column k st = map (\<lambda>r. map_of (rec_fields r) k) (rows st)"

section \<open>Revenue aggregation (src/lib/airtable.js, src/index.js)\<close>

text \<open>
  A paid lead as \<open>getLeadsWithPayments\<close> returns it. \<open>None\<close> is a field the record
  does not carry; for the amount it is also a value on which \<open>parseFloat\<close> gives
  \<open>NaN\<close>.
\<close>

record paid_lead =
  pl_id :: nat
  pl_LeadSource :: "string option"
  pl_PaymentAmount :: "rat option"

record source_stats =
  totalRevenue :: rat
  customerCount :: nat
  averageRevenue :: rat

type_synonym revenue_by_source = "(string \<times> source_stats) list"

text \<open>\<open>lead.fields['Lead Source'] || 'Unknown'\<close>\<close>

definition lead_source_of :: "paid_lead \<Rightarrow> string" where
  "lead_source_of lead = (if truthy_str (pl_LeadSource lead) then or_empty (pl_LeadSource lead) else ''Unknown'')"

text \<open>\<open>parseFloat(lead.fields['Payment Amount']) || 0\<close>\<close>

definition lead_amount_of :: "paid_lead \<Rightarrow> rat" where
  "lead_amount_of lead = (case pl_PaymentAmount lead of None \<Rightarrow> 0 | Some a \<Rightarrow> a)"

definition zero_stats :: source_stats where
  "zero_stats = \<lparr>totalRevenue = 0, customerCount = 0, averageRevenue = 0\<rparr>"

text \<open>
  \<open>if (!aggregation[source]) aggregation[source] = {totalRevenue: 0, ...}\<close>. The
  test reads the object's own entry, which is an object and counts as true, or else the
  member of that name it inherits from \<open>Object.prototype\<close>; only a source that is
  neither gets a new entry.
\<close>

definition ensure_source :: "string \<Rightarrow> revenue_by_source \<Rightarrow> revenue_by_source" where
  "ensure_source source agg =
     (case map_of agg source of
        None \<Rightarrow> if inherited source then agg else AList.update source zero_stats agg
      | Some _ \<Rightarrow> agg)"

text \<open>The three assignments to the entry: total, count, then average from the two.\<close>

definition add_payment :: "rat \<Rightarrow> source_stats \<Rightarrow> source_stats" where
  "add_payment amount e =
     (let e1 = e\<lparr>totalRevenue := totalRevenue e + amount\<rparr>;
          e2 = e1\<lparr>customerCount := customerCount e1 + 1\<rparr>
      in e2\<lparr>averageRevenue := totalRevenue e2 / of_nat (customerCount e2)\<rparr>)"

text \<open>
  One turn of the \<open>forEach\<close>. When the source has no entry of its own after the
  test, \<open>aggregation[source]\<close> is the inherited member, and the three assignments
  set properties of that member (a function of the runtime, or \<open>Object.prototype\<close>);
  the aggregation keeps the entries it had.
\<close>

definition aggregate_step :: "revenue_by_source \<Rightarrow> paid_lead \<Rightarrow> revenue_by_source" where
  "aggregate_step agg lead =
     AList.map_entry (lead_source_of lead) (add_payment (lead_amount_of lead))
       (ensure_source (lead_source_of lead) agg)"

definition aggregateRevenueBySource :: "paid_lead list \<Rightarrow> revenue_by_source" where
  "aggregateRevenueBySource leads = foldl aggregate_step [] leads"

text \<open>The \<open>reduce\<close> of \<open>generateMonthlySummary\<close> and the one of \<open>getRevenueBySource\<close>.\<close>

definition leads_totalRevenue :: "paid_lead list \<Rightarrow> rat" where
  "leads_totalRevenue leads = foldl (\<lambda>sum lead. sum + lead_amount_of lead) 0 leads"

definition sources_totalRevenue :: "revenue_by_source \<Rightarrow> rat" where
  "sources_totalRevenue agg = foldl (\<lambda>sum source. sum + totalRevenue source) 0 (map snd agg)"

text \<open>What the specification asks of one source: the sum and the number of its payments.\<close>

definition source_total :: "string \<Rightarrow> paid_lead list \<Rightarrow> rat" where
  "source_total s leads = sum_list (map lead_amount_of (filter (\<lambda>l. lead_source_of l = s) leads))"

definition source_count :: "string \<Rightarrow> paid_lead list \<Rightarrow> nat" where
  "source_count s leads = length (filter (\<lambda>l. lead_source_of l = s) leads)"

section \<open>The monthly summary record (src/lib/airtable.js, update-ad-spend-v2.js)\<close>

text \<open>
  The ROI text. \<open>Percent n\<close> is the string \<open>(x).toFixed(2) + '%'\<close> for a finite
  \<open>x\<close>, with \<open>n\<close> the number of hundredths \<open>toFixed\<close> rounds to (the nearest, the larger
  on a tie); \<open>NonFinite\<close> is what \<open>toFixed\<close> prints of \<open>Infinity\<close> or \<open>NaN\<close>, the
  quotients by zero. \<open>js_div\<close> is the division, \<open>None\<close> on a zero divisor.
\<close>

datatype roi_text = NA | Percent int | NonFinite

definition js_div :: "rat \<Rightarrow> rat \<Rightarrow> rat option" where
  "js_div a b = (if b = 0 then None else Some (a / b))"

definition toFixed2_percent :: "rat option \<Rightarrow> roi_text" where
  "toFixed2_percent x = (case x of None \<Rightarrow> NonFinite | Some v \<Rightarrow> Percent \<lfloor>v * 100 + 1 / 2\<rfloor>)"

text \<open>
  \<open>adSpend > 0 ? ((revenue - adSpend) / adSpend * 100).toFixed(2) + '%' : 'N/A'\<close>;
  an \<open>undefined\<close> ad spend (\<open>None\<close>) is not greater than 0.
\<close>

definition roi :: "rat \<Rightarrow> rat option \<Rightarrow> roi_text" where
  "roi revenue adSpend' =
     (case adSpend' of
        None \<Rightarrow> NA
      | Some a \<Rightarrow>
          if a > 0
          then toFixed2_percent (map_option (\<lambda>q. q * 100) (js_div (revenue - a) a))
          else NA)"

text \<open>
  The JSON text of the field \<open>Revenue by Source\<close>: the object it parses to, or a text
  \<open>JSON.parse\<close> rejects.
\<close>

datatype rbs_json = Json revenue_by_source | Unparsable

record summary =
  sm_id :: nat
  sMonth :: "int option"
  sYear :: "int option"
  sPeriod :: "string option"
  sTotalRevenue :: "rat option"
  sTotalAdSpend :: "rat option"
  sTotalPromoSpend :: "rat option"
  sNetRevenue :: "rat option"
  sCustomerCount :: "nat option"
  sAverageRevenuePerCustomer :: "rat option"
  sRevenueBySource :: "rbs_json option"
  sAdSpendByCategory :: "(string \<times> rat) list option"
  sROI :: "roi_text option"
  sCreatedAt :: "string option"
  sLastUpdated :: "string option"
  sAdSpendUpdated :: "string option"

definition empty_summary :: "nat \<Rightarrow> summary" where
  "empty_summary i =
     \<lparr>sm_id = i, sMonth = None, sYear = None, sPeriod = None, sTotalRevenue = None,
      sTotalAdSpend = None, sTotalPromoSpend = None, sNetRevenue = None, sCustomerCount = None,
      sAverageRevenuePerCustomer = None, sRevenueBySource = None, sAdSpendByCategory = None,
      sROI = None, sCreatedAt = None, sLastUpdated = None, sAdSpendUpdated = None\<rparr>"

text \<open>Decimal digits of a number, \<open>String(n)\<close>, and \<open>padStart(2, '0')\<close>.\<close>

fun string_of_nat :: "nat \<Rightarrow> string" where
  "string_of_nat n =
     (if n < 10 then [char_of (48 + n)] else string_of_nat (n div 10) @ [char_of (48 + n mod 10)])"

declare string_of_nat.simps [simp del]

definition string_of_int :: "int \<Rightarrow> string" where
  "string_of_int i = (if i < 0 then CHR ''-'' # string_of_nat (nat (- i)) else string_of_nat (nat i))"

definition padStart2 :: "string \<Rightarrow> string" where
  "padStart2 s = replicate (2 - length s) (CHR ''0'') @ s"

definition period_key :: "int \<Rightarrow> int \<Rightarrow> string" where
  "period_key year month = string_of_int year @ ''-'' @ padStart2 (string_of_int month)"

definition or0 :: "rat option \<Rightarrow> rat" where
  "or0 x = (case x of None \<Rightarrow> 0 | Some v \<Rightarrow> v)"






record payment_info =
  pi_month :: int
  pi_year :: int
  pi_leadSource :: string
  pi_paymentAmount :: rat

text \<open>
  \<open>JSON.parse(currentFields['Revenue by Source'] || '{}')\<close>, \<open>{}\<close> when it throws:
  the own entries of the parsed object. In \<open>payment_updateData\<close> the entry of the
  payment's lead source is looked up and changed as in \<open>aggregate_step\<close>; the record
  a first payment creates is written with the lead source as a computed key, which is an
  own entry whatever the name.
\<close>

definition parse_revenueBySource :: "rbs_json option \<Rightarrow> revenue_by_source" where
  "parse_revenueBySource field = (case field of Some (Json obj) \<Rightarrow> obj | _ \<Rightarrow> [])"

definition payment_updateData :: "string \<Rightarrow> payment_info \<Rightarrow> summary \<Rightarrow> summary \<Rightarrow> summary" where
  "payment_updateData now paymentInfo existingRecord r =
     (let revenueBySource =
            AList.map_entry (pi_leadSource paymentInfo) (add_payment (pi_paymentAmount paymentInfo))
              (ensure_source (pi_leadSource paymentInfo)
                 (parse_revenueBySource (sRevenueBySource existingRecord)));
          newTotalRevenue = or0 (sTotalRevenue existingRecord) + pi_paymentAmount paymentInfo;
          newCustomerCount = (case sCustomerCount existingRecord of None \<Rightarrow> 0 | Some c \<Rightarrow> c) + 1;
          totalAdSpend = or0 (sTotalAdSpend existingRecord)
      in r\<lparr>sTotalRevenue := Some newTotalRevenue,
           sCustomerCount := Some newCustomerCount,
           sAverageRevenuePerCustomer := Some (newTotalRevenue / of_nat newCustomerCount),
           sRevenueBySource := Some (Json revenueBySource),
           sNetRevenue := Some (newTotalRevenue - totalAdSpend - or0 (sTotalPromoSpend existingRecord)),
           sROI := Some (roi newTotalRevenue (Some totalAdSpend)),
           sLastUpdated := Some now\<rparr>)"

definition payment_recordData :: "string \<Rightarrow> payment_info \<Rightarrow> nat \<Rightarrow> summary" where
  "payment_recordData now paymentInfo i =
     (empty_summary i)
       \<lparr>sMonth := Some (pi_month paymentInfo),
        sYear := Some (pi_year paymentInfo),
        sPeriod := Some (period_key (pi_year paymentInfo) (pi_month paymentInfo)),
        sTotalRevenue := Some (pi_paymentAmount paymentInfo),
        sTotalAdSpend := Some 0,
        sTotalPromoSpend := Some 0,
        sNetRevenue := Some (pi_paymentAmount paymentInfo),
        sCustomerCount := Some 1,
        sAverageRevenuePerCustomer := Some (pi_paymentAmount paymentInfo),
        sRevenueBySource :=
          Some (Json [(pi_leadSource paymentInfo,
                       \<lparr>totalRevenue = pi_paymentAmount paymentInfo, customerCount = 1,
                        averageRevenue = pi_paymentAmount paymentInfo\<rparr>)]),
        sROI := Some NA,
        sCreatedAt := Some now,
        sLastUpdated := Some now\<rparr>"

definition updateMonthlySummaryWithPayment ::
  "string \<Rightarrow> payment_info \<Rightarrow> summary store \<Rightarrow> summary \<times> summary store" where
  "updateMonthlySummaryWithPayment now paymentInfo summaryTable =
     (let period = period_key (pi_year paymentInfo) (pi_month paymentInfo);
          existingRecords = store_select (\<lambda>r. sPeriod r = Some period) 1 summaryTable
      in case existingRecords of
           existingRecord # _ \<Rightarrow>
             (payment_updateData now paymentInfo existingRecord existingRecord,
              store_update sm_id (sm_id existingRecord)
                (payment_updateData now paymentInfo existingRecord) summaryTable)
         | [] \<Rightarrow> store_create (payment_recordData now paymentInfo) summaryTable)"

text \<open>
  The ad-spend write of update-ad-spend-v2.js (the scheduled function in its first
  version has the same body as \<open>updateMonthlySummaryAdSpend\<close>).
\<close>

record ad_spend_data =
  totalAdSpend :: rat
  adSpendByCategory :: "(string \<times> rat) list"
  message :: string

definition adSpend_recordData :: "string \<Rightarrow> int \<Rightarrow> int \<Rightarrow> ad_spend_data \<Rightarrow> nat \<Rightarrow> summary" where
  "adSpend_recordData now month year adSpendData i =
     (empty_summary i)
       \<lparr>sMonth := Some month,
        sYear := Some year,
        sPeriod := Some (period_key year month),
        sTotalRevenue := Some 0,
        sTotalAdSpend := Some (totalAdSpend adSpendData),
        sTotalPromoSpend := Some 0,
        sNetRevenue := Some (- totalAdSpend adSpendData),
        sCustomerCount := Some 0,
        sAverageRevenuePerCustomer := Some 0,
        sRevenueBySource := Some (Json []),
        sAdSpendByCategory := Some (adSpendByCategory adSpendData),
        sROI := Some NA,
        sCreatedAt := Some now,
        sLastUpdated := Some now,
        sAdSpendUpdated := Some now\<rparr>"

definition adSpend_updateData :: "string \<Rightarrow> ad_spend_data \<Rightarrow> summary \<Rightarrow> summary \<Rightarrow> summary" where
  "adSpend_updateData now adSpendData existingRecord r =
     (let totalRevenue' = or0 (sTotalRevenue existingRecord);
          totalPromoSpend = or0 (sTotalPromoSpend existingRecord)
      in r\<lparr>sTotalAdSpend := Some (totalAdSpend adSpendData),
           sAdSpendByCategory := Some (adSpendByCategory adSpendData),
           sNetRevenue := Some (totalRevenue' - totalAdSpend adSpendData - totalPromoSpend),
           sROI := Some (roi totalRevenue' (Some (totalAdSpend adSpendData))),
           sLastUpdated := Some now,
           sAdSpendUpdated := Some now\<rparr>)"

definition updateMonthlySummaryAdSpend ::
  "string \<Rightarrow> int \<Rightarrow> int \<Rightarrow> ad_spend_data \<Rightarrow> summary store \<Rightarrow> summary \<times> summary store" where
  "updateMonthlySummaryAdSpend now month year adSpendData summaryTable =
     (let existingRecords = store_select (\<lambda>r. sPeriod r = Some (period_key year month)) 1 summaryTable
      in case existingRecords of
           [] \<Rightarrow> store_create (adSpend_recordData now month year adSpendData) summaryTable
         | existingRecord # _ \<Rightarrow>
             (adSpend_updateData now adSpendData existingRecord existingRecord,
              store_update sm_id (sm_id existingRecord)
                (adSpend_updateData now adSpendData existingRecord) summaryTable))"


text \<open>
  The invariant of C3 on the entry of one source in a stored summary: the average is the
  total over the count.
\<close>

definition source_average_ok :: "string \<Rightarrow> summary \<Rightarrow> bool" where
  "source_average_ok source r =
     (case sRevenueBySource r of
        Some (Json obj) \<Rightarrow>
          (case map_of obj source of
             Some e \<Rightarrow> 0 < customerCount e \<and> averageRevenue e = totalRevenue e / of_nat (customerCount e)
           | None \<Rightarrow> False)
      | _ \<Rightarrow> False)"

section \<open>The scheduled ad-spend functions (netlify/functions/update-ad-spend-v2.js, -v3.js)\<close>

text \<open>
  The query string of the event; a parameter counts when it is present and not empty.
  The clock gives \<open>getFullYear()\<close>, \<open>getMonth()\<close> (0 to 11) and \<open>getDate()\<close> of
  \<open>new Date()\<close>.
\<close>

record event =
  qs_test :: "string option"
  qs_testdata :: "string option"
  qs_debug :: "string option"
  qs_force :: "string option"

record clock =
  now_year :: int
  now_month :: nat
  now_day :: nat

datatype action = Updated | Created | Zeroed

record detail =
  d_leadSource :: string
  d_adSpend :: rat
  d_action :: action
  d_recordId :: nat

record expense =
  ex_TotalAmt :: "rat option"
  ex_AccountRef_name :: "string option"

text \<open>
  The JSON bodies of the responses, without their timestamps. \<open>ErrorOnly\<close> is the
  body \<open>{error: error.message}\<close> of the two test modes' \<open>catch\<close>.
\<close>

datatype body =
    Working string
  | NotToday string string
  | Failed string string
  | CompletedV2 string rat string nat
  | TestData string rat nat "detail list"
  | DebugNotConnected
  | DebugExpenses "expense list"
  | ErrorOnly
  | CompletedV3 string rat string nat "detail list"

record response =
  statusCode :: nat
  response_body :: body

text \<open>The calls made on the summary table.\<close>

datatype store_op = Select | Create | Update

text \<open>
  \<open>new Date(now.getFullYear(), now.getMonth() - 1, 1)\<close>, as \<open>(year, month)\<close> with the
  month from 1 to 12.
\<close>

definition previous_month :: "clock \<Rightarrow> int \<times> nat" where
  "previous_month now =
     (if now_month now = 0 then (now_year now - 1, 12) else (now_year now, now_month now))"

definition next_run :: "clock \<Rightarrow> string" where
  "next_run now =
     string_of_int (now_year now) @ ''-'' @ padStart2 (string_of_nat (now_month now + 1)) @ ''-03''"

definition not_today_message :: string where
  "not_today_message = ''Ad spend update only runs on the 3rd of each month''"

definition placeholder_v2 :: ad_spend_data where
  "placeholder_v2 =
     \<lparr>totalAdSpend = 0, adSpendByCategory = [],
      message = ''QuickBooks integration pending - placeholder data''\<rparr>"

definition handler_v2 ::
  "bool \<Rightarrow> string \<Rightarrow> clock \<Rightarrow> event \<Rightarrow> summary store \<Rightarrow> response \<times> summary store \<times> store_op list" where
  "handler_v2 configured now_iso now ev summaryTable =
     (if truthy_str (qs_test ev)
      then (\<lparr>statusCode = 200, response_body = Working ''Function v2 is working!''\<rparr>, summaryTable, [])
      else if \<not> configured
      then (\<lparr>statusCode = 500,
             response_body = Failed ''Failed to update ad spend'' ''Missing Airtable configuration''\<rparr>,
            summaryTable, [])
      else if now_day now \<noteq> 3 \<and> \<not> truthy_str (qs_force ev)
      then (\<lparr>statusCode = 200, response_body = NotToday not_today_message (next_run now)\<rparr>,
            summaryTable, [])
      else
        (case previous_month now of
           (year, month) \<Rightarrow>
             (case updateMonthlySummaryAdSpend now_iso (int month) year placeholder_v2 summaryTable of
                (record, summaryTable') \<Rightarrow>
                  (\<lparr>statusCode = 200,
                    response_body =
                      CompletedV2 (period_key year (int month)) (totalAdSpend placeholder_v2)
                        (message placeholder_v2) (sm_id record)\<rparr>,
                   summaryTable',
                   [Select,
                    if store_select (\<lambda>r. sPeriod r = Some (period_key year (int month))) 1 summaryTable = []
                    then Create else Update]))))"

text \<open>
  Version 3 keeps one record per month and lead source. \<open>Ad Spend\<close> holds the text
  \<open>String(adSpend)\<close>; the rendering of a number is the parameter \<open>String_num\<close> of
  the functions below. An empty \<open>rLeadSource\<close> is a record without that field.
\<close>

record summary_row =
  row_id :: nat
  rMonth :: string
  rYear :: string
  rLeadSource :: string
  rTotalRevenue :: rat
  rAdSpend :: string

definition monthNames :: "string list" where
  "monthNames = [''January'', ''February'', ''March'', ''April'', ''May'', ''June'',
                 ''July'', ''August'', ''September'', ''October'', ''November'', ''December'']"

definition monthName_of :: "nat \<Rightarrow> string" where
  "monthName_of month =
     (if 1 \<le> month \<and> month \<le> 12 then monthNames ! (month - 1) else ''undefined'')"

fun is_prefix :: "string \<Rightarrow> string \<Rightarrow> bool" where
  "is_prefix [] s = True"
| "is_prefix (c # t) [] = False"
| "is_prefix (c # t) (d # s) = (c = d \<and> is_prefix t s)"

text \<open>\<open>s.includes(t)\<close>\<close>

fun str_includes :: "string \<Rightarrow> string \<Rightarrow> bool" where
  "str_includes [] t = (t = [])"
| "str_includes (c # s) t = (is_prefix t (c # s) \<or> str_includes s t)"

definition account_mapping :: "(string \<times> string) list" where
  "account_mapping =
     [(''Google Ads'', ''Google Ads''), (''Facebook Ads'', ''Facebook Ads''),
      (''Box Truck'', ''Box Truck''), (''Angi'', ''Angi''), (''Yard Sign'', ''Yard Sign''),
      (''Billboard'', ''Billboard''), (''Marketing'', ''General Marketing''),
      (''Advertising'', ''General Advertising''), (''Online Advertising'', ''Online Ads''),
      (''Social Media Advertising'', ''Social Media'')]"

text \<open>
  \<open>mapAccountToLeadSource\<close>. The first test, \<open>mapping[accountName]\<close>, reads a
  plain object: for an account named like a member of \<open>Object.prototype\<close> it finds
  that member and returns it. The result is only ever used as a property key, so such a
  result is modelled by the text it has as a key (\<open>member_text\<close>: a built-in function
  prints as \<open>function name() { [native code] }\<close>, and \<open>__proto__\<close> reads as
  \<open>Object.prototype\<close>, which prints as \<open>[object Object]\<close>).
\<close>

definition member_text :: "string \<Rightarrow> string" where
  "member_text name =
     (if name = ''__proto__'' then ''[object Object]''
      else ''function '' @ (if name = ''constructor'' then ''Object'' else name)
             @ ''() { [native code] }'')"

definition mapAccountToLeadSource :: "string \<Rightarrow> string" where
  "mapAccountToLeadSource accountName =
     (case map_of account_mapping accountName of
        Some v \<Rightarrow> v
      | None \<Rightarrow>
          if inherited accountName then member_text accountName
          else
            (let lowerAccount = toLowerCase accountName
             in case find (\<lambda>(key, v). str_includes lowerAccount (toLowerCase key)
                                     \<or> str_includes (toLowerCase key) lowerAccount) account_mapping of
                  Some (key, v) \<Rightarrow> v
                | None \<Rightarrow> accountName))"

text \<open>
  The \<open>forEach\<close> over the expenses: the spend by lead source and the total. The key
  is a result of \<open>mapAccountToLeadSource\<close>, which is never the name of a member of
  \<open>Object.prototype\<close> (lemma \<open>mapAccount_not_inherited\<close>), so the test
  \<open>!adSpendByCategory[leadSource]\<close> reads an own entry or nothing.
\<close>

definition expense_step :: "(string \<times> rat) list \<times> rat \<Rightarrow> expense \<Rightarrow> (string \<times> rat) list \<times> rat" where
  "expense_step acc ex =
     (case acc of
        (byCategory, spendTotal) \<Rightarrow>
          (let amount = or0 (ex_TotalAmt ex);
               accountName = (if truthy_str (ex_AccountRef_name ex)
                              then or_empty (ex_AccountRef_name ex) else ''Uncategorized'');
               leadSource = mapAccountToLeadSource accountName;
               byCategory1 = (if or0 (map_of byCategory leadSource) = 0
                              then AList.update leadSource 0 byCategory else byCategory)
           in (AList.map_entry leadSource (\<lambda>v. v + amount) byCategory1, spendTotal + amount)))"

definition process_expenses :: "expense list \<Rightarrow> (string \<times> rat) list \<times> rat" where
  "process_expenses expenses = foldl expense_step ([], 0) expenses"

definition in_period :: "string \<Rightarrow> string \<Rightarrow> summary_row \<Rightarrow> bool" where
  "in_period monthName year r = (rMonth r = monthName \<and> rYear r = year)"

text \<open>
  \<open>existingByLeadSource\<close>, a plain object filled by
  \<open>existingByLeadSource[leadSource] = record\<close>: its own entries are, for each lead
  source, the last record read that has it. For the lead source \<open>__proto__\<close> the
  assignment makes the record the prototype of the object instead
  (\<open>existing_prototype\<close>: the last such record read, if any).
\<close>

definition existingByLeadSource :: "summary_row list \<Rightarrow> (string \<times> summary_row) list" where
  "existingByLeadSource existingRecords =
     foldl (\<lambda>m record. if rLeadSource record \<noteq> [] \<and> rLeadSource record \<noteq> ''__proto__''
                       then AList.update (rLeadSource record) record m else m)
       [] existingRecords"

definition existing_prototype :: "summary_row list \<Rightarrow> summary_row option" where
  "existing_prototype existingRecords =
     foldl (\<lambda>p record. if rLeadSource record = ''__proto__'' then Some record else p)
       None existingRecords"

definition new_row :: "string \<Rightarrow> string \<Rightarrow> string \<Rightarrow> string \<Rightarrow> nat \<Rightarrow> summary_row" where
  "new_row monthName year leadSource spendText i =
     \<lparr>row_id = i, rMonth = monthName, rYear = year, rLeadSource = leadSource,
      rTotalRevenue = 0, rAdSpend = spendText\<rparr>"

definition set_adSpend :: "string \<Rightarrow> summary_row \<Rightarrow> summary_row" where
  "set_adSpend spendText r = r\<lparr>rAdSpend := spendText\<rparr>"

text \<open>
  The read \<open>existingByLeadSource[leadSource]\<close> of the first loop. It finds the own
  entry; or, under \<open>__proto__\<close>, the record that was made the prototype; or a member
  inherited along the prototype chain, which is no record. Without a record as the
  prototype the chain is \<open>Object.prototype\<close>. With one, the chain goes through that
  record, and \<open>recordHas name\<close> says whether reading the property \<open>name\<close> of a record
  object of the Airtable client (\<open>id\<close>, \<open>fields\<close>, the methods of its class such as
  \<open>getId\<close>, what it inherits from \<open>Object.prototype\<close>) gives a value that counts
  as true; it is a parameter of the functions below. None of these members has a method
  \<open>getId\<close>, and all of them are ordinary writable properties, so that an assignment
  under such a name still makes an own entry.
\<close>

datatype found = Absent | Existing summary_row | NotARecord

definition existing_lookup ::
  "(string \<Rightarrow> bool) \<Rightarrow> (string \<times> summary_row) list \<Rightarrow> summary_row option \<Rightarrow> string \<Rightarrow> found" where
  "existing_lookup recordHas existing proto leadSource =
     (case map_of existing leadSource of
        Some record \<Rightarrow> Existing record
      | None \<Rightarrow>
          (case proto of
             Some record \<Rightarrow>
               if leadSource = ''__proto__'' then Existing record
               else if recordHas leadSource then NotARecord else Absent
           | None \<Rightarrow> if inherited leadSource then NotARecord else Absent))"

text \<open>
  The first loop: each lead source with expenses is updated or created. The state of a
  loop is the table, the list \<open>updatedRecords\<close> and the exception that has left the
  loop, if any. When the read finds a value that is no record,
  \<open>existingRecord.getId()\<close> raises a TypeError, which ends the refresh with what has
  been written so far.
\<close>

type_synonym refresh_state = "summary_row store \<times> detail list \<times> error option"

definition spend_step ::
  "(rat \<Rightarrow> string) \<Rightarrow> (string \<Rightarrow> bool) \<Rightarrow> string \<Rightarrow> string \<Rightarrow> (string \<times> summary_row) list
   \<Rightarrow> summary_row option \<Rightarrow> refresh_state \<Rightarrow> string \<times> rat \<Rightarrow> refresh_state" where
  "spend_step String_num recordHas monthName year existing proto acc entry =
     (case (acc, entry) of
        ((summaryTable, updatedRecords, Some e), _) \<Rightarrow> acc
      | ((summaryTable, updatedRecords, None), (leadSource, adSpend')) \<Rightarrow>
          if adSpend' > 0
          then (case existing_lookup recordHas existing proto leadSource of
                  Existing existingRecord \<Rightarrow>
                    (store_update row_id (row_id existingRecord) (set_adSpend (String_num adSpend'))
                       summaryTable,
                     updatedRecords
                       @ [\<lparr>d_leadSource = leadSource, d_adSpend = adSpend', d_action = Updated,
                           d_recordId = row_id existingRecord\<rparr>],
                     None)
                | NotARecord \<Rightarrow> (summaryTable, updatedRecords, Some TypeError)
                | Absent \<Rightarrow>
                    (case store_create (new_row monthName year leadSource (String_num adSpend'))
                            summaryTable of
                       (newRecord, summaryTable') \<Rightarrow>
                         (summaryTable',
                          updatedRecords
                            @ [\<lparr>d_leadSource = leadSource, d_adSpend = adSpend', d_action = Created,
                                d_recordId = row_id newRecord\<rparr>],
                          None)))
          else acc)"

text \<open>
  The test of the second loop, \<open>!adSpendData.adSpendByCategory[leadSource]\<close>, on the
  plain object of the spend by category: it holds for a lead source whose own entry is 0,
  and for one that has no own entry and is not named like a member of
  \<open>Object.prototype\<close>.
\<close>

definition no_spend :: "(string \<times> rat) list \<Rightarrow> string \<Rightarrow> bool" where
  "no_spend adSpendByCategory' leadSource =
     (case map_of adSpendByCategory' leadSource of
        Some v \<Rightarrow> v = 0
      | None \<Rightarrow> \<not> inherited leadSource)"

text \<open>The second loop, over the own entries of \<open>existingByLeadSource\<close>.\<close>

definition zero_step ::
  "(string \<times> rat) list \<Rightarrow> refresh_state \<Rightarrow> string \<times> summary_row \<Rightarrow> refresh_state" where
  "zero_step adSpendByCategory' acc entry =
     (case (acc, entry) of
        ((summaryTable, updatedRecords, Some e), _) \<Rightarrow> acc
      | ((summaryTable, updatedRecords, None), (leadSource, record)) \<Rightarrow>
          if no_spend adSpendByCategory' leadSource
          then (store_update row_id (row_id record) (set_adSpend ''0'') summaryTable,
                updatedRecords
                  @ [\<lparr>d_leadSource = leadSource, d_adSpend = 0, d_action = Zeroed,
                      d_recordId = row_id record\<rparr>],
                None)
          else acc)"

text \<open>
  The refresh proper (lines 410 to 477 of the handler): read the month's records, at most
  100 of them, then run the two loops.
\<close>

definition applyAdSpend ::
  "(rat \<Rightarrow> string) \<Rightarrow> (string \<Rightarrow> bool) \<Rightarrow> string \<Rightarrow> string \<Rightarrow> (string \<times> rat) list
   \<Rightarrow> summary_row store \<Rightarrow> refresh_state" where
  "applyAdSpend String_num recordHas monthName year adSpendByCategory' summaryTable =
     (let existingRecords = store_select (in_period monthName year) 100 summaryTable;
          existing = existingByLeadSource existingRecords;
          proto = existing_prototype existingRecords;
          afterSpend = foldl (spend_step String_num recordHas monthName year existing proto)
                         (summaryTable, [], None) adSpendByCategory'
      in foldl (zero_step adSpendByCategory') afterSpend existing)"

definition op_of_detail :: "detail \<Rightarrow> store_op" where
  "op_of_detail d = (case d_action d of Created \<Rightarrow> Create | Updated \<Rightarrow> Update | Zeroed \<Rightarrow> Update)"

definition sampleAdSpend :: "(string \<times> rat) list" where
  "sampleAdSpend = [(''Box Truck'', 1500), (''Angi'', 800), (''Yard Sign'', 300),
                    (''Billboard'', 2000), (''Google Ads'', 1200)]"

text \<open>The test mode's loop: a record is created for each sample lead source.\<close>

definition testdata_step ::
  "(rat \<Rightarrow> string) \<Rightarrow> string \<Rightarrow> string \<Rightarrow> summary_row store \<times> detail list \<Rightarrow> string \<times> rat
   \<Rightarrow> summary_row store \<times> detail list" where
  "testdata_step String_num monthName year acc entry =
     (case (acc, entry) of
        ((summaryTable, updatedRecords), (leadSource, adSpend')) \<Rightarrow>
          (case store_create (new_row monthName year leadSource (String_num adSpend')) summaryTable of
             (newRecord, summaryTable') \<Rightarrow>
               (summaryTable',
                updatedRecords
                  @ [\<lparr>d_leadSource = leadSource, d_adSpend = adSpend', d_action = Created,
                      d_recordId = row_id newRecord\<rparr>])))"

definition is_leap :: "int \<Rightarrow> bool" where
  "is_leap y = (y mod 4 = 0 \<and> (y mod 100 \<noteq> 0 \<or> y mod 400 = 0))"

text \<open>\<open>new Date(year, month, 0).getDate()\<close>: the last day of the month, 1 to 12.\<close>

definition days_in_month :: "int \<Rightarrow> nat \<Rightarrow> nat" where
  "days_in_month y m =
     (if m = 2 then (if is_leap y then 29 else 28)
      else if m = 4 \<or> m = 6 \<or> m = 9 \<or> m = 11 then 30 else 31)"

definition expense_categories :: "string list" where
  "expense_categories =
     [''Advertising/Promotional'', ''Marketing'', ''Advertising'', ''Google Ads'', ''Facebook Ads'',
      ''Box Truck'', ''Angi'', ''Yard Sign'', ''Billboard'', ''Online Advertising'',
      ''Social Media Advertising'', ''Promotional'']"

text \<open>
  The QuickBooks side of the handler is its environment: \<open>qbConnected\<close> says whether
  \<open>initializeQuickBooks\<close> returned tokens, and \<open>fetch startDate endDate categories\<close> is
  the outcome of awaiting \<open>fetchQuickBooksExpenses\<close>.
\<close>

definition quickbooks_adSpend ::
  "bool \<Rightarrow> (string \<Rightarrow> string \<Rightarrow> string list \<Rightarrow> error + expense list) \<Rightarrow> int \<Rightarrow> nat \<Rightarrow> ad_spend_data" where
  "quickbooks_adSpend qbConnected fetch year month =
     (if qbConnected
      then (let ym = string_of_int year @ ''-'' @ padStart2 (string_of_nat month);
                startDate = ym @ ''-01'';
                endDate = ym @ ''-'' @ string_of_nat (days_in_month year month)
            in case fetch startDate endDate expense_categories of
                 Inr expenses \<Rightarrow>
                   (case process_expenses expenses of
                      (byCategory, spendTotal) \<Rightarrow>
                        \<lparr>totalAdSpend = spendTotal, adSpendByCategory = byCategory,
                         message = ''Found expenses''\<rparr>)
               | Inl e \<Rightarrow>
                   \<lparr>totalAdSpend = 0, adSpendByCategory = [], message = ''QuickBooks error''\<rparr>)
      else \<lparr>totalAdSpend = 0, adSpendByCategory = [],
            message = ''QuickBooks not connected - using placeholder data''\<rparr>)"

text \<open>
  The handler of version 3. Its test mode with sample data and its debug mode run before
  the configuration check and the day-of-month check of the scheduled path; the sample
  data mode needs the Airtable client, which cannot be built without its key. After the
  checks, the store's calls are modelled on their successful outcome; an exception of the
  refresh is caught and answered with status 500.
\<close>

definition handler_v3 ::
  "(rat \<Rightarrow> string) \<Rightarrow> (string \<Rightarrow> bool) \<Rightarrow> bool \<Rightarrow> bool
   \<Rightarrow> (string \<Rightarrow> string \<Rightarrow> string list \<Rightarrow> error + expense list)
   \<Rightarrow> clock \<Rightarrow> event \<Rightarrow> summary_row store \<Rightarrow> response \<times> summary_row store \<times> store_op list" where
  "handler_v3 String_num recordHas configured qbConnected fetch now ev summaryTable =
     (if truthy_str (qs_test ev)
      then (\<lparr>statusCode = 200, response_body = Working ''Function v3 is working!''\<rparr>, summaryTable, [])
      else if truthy_str (qs_testdata ev)
      then (if \<not> configured
            then (\<lparr>statusCode = 500, response_body = ErrorOnly\<rparr>, summaryTable, [])
            else case previous_month now of
              (year, month) \<Rightarrow>
                (case foldl (testdata_step String_num (monthName_of month) (string_of_int year))
                        (summaryTable, []) sampleAdSpend of
                   (summaryTable', updatedRecords) \<Rightarrow>
                     (\<lparr>statusCode = 200,
                       response_body =
                         TestData (period_key year (int month))
                           (foldl (+) 0 (map snd sampleAdSpend)) (length updatedRecords) updatedRecords\<rparr>,
                      summaryTable', map op_of_detail updatedRecords)))
      else if truthy_str (qs_debug ev)
      then (if \<not> qbConnected
            then (\<lparr>statusCode = 200, response_body = DebugNotConnected\<rparr>, summaryTable, [])
            else (case fetch ''2025-01-01'' ''2025-12-31'' [] of
                    Inr allExpenses \<Rightarrow>
                      (\<lparr>statusCode = 200, response_body = DebugExpenses allExpenses\<rparr>, summaryTable, [])
                  | Inl e \<Rightarrow> (\<lparr>statusCode = 500, response_body = ErrorOnly\<rparr>, summaryTable, [])))
      else if \<not> configured
      then (\<lparr>statusCode = 500,
             response_body = Failed ''Failed to update ad spend'' ''Missing Airtable configuration''\<rparr>,
            summaryTable, [])
      else if now_day now \<noteq> 3 \<and> \<not> truthy_str (qs_force ev)
      then (\<lparr>statusCode = 200, response_body = NotToday not_today_message (next_run now)\<rparr>,
            summaryTable, [])
      else
        (case previous_month now of
           (year, month) \<Rightarrow>
             (let adSpendData = quickbooks_adSpend qbConnected fetch year month
              in case applyAdSpend String_num recordHas (monthName_of month) (string_of_int year)
                        (adSpendByCategory adSpendData) summaryTable of
                   (summaryTable', updatedRecords, None) \<Rightarrow>
                     (\<lparr>statusCode = 200,
                       response_body =
                         CompletedV3 (period_key year (int month)) (totalAdSpend adSpendData)
                           (message adSpendData) (length updatedRecords) updatedRecords\<rparr>,
                      summaryTable', Select # map op_of_detail updatedRecords)
                 | (summaryTable', updatedRecords, Some e) \<Rightarrow>
                     (\<lparr>statusCode = 500,
                       response_body =
                         Failed ''Failed to update ad spend'' ''existingRecord.getId is not a function''\<rparr>,
                      summaryTable', Select # map op_of_detail updatedRecords))))"

section \<open>The refresh read as a list of writes, and its well-formed inputs\<close>

text \<open>The fields of a summary record that the refresh never changes.\<close>

definition keys_of :: "summary_row \<Rightarrow> nat \<times> string \<times> string \<times> string" where
  "keys_of r = (row_id r, rMonth r, rYear r, rLeadSource r)"

text \<open>
  The effect of a sequence of \<open>update(id, {'Ad Spend': text})\<close> calls on one record:
  each call whose id is the record's replaces its ad spend.
\<close>

definition patch_all :: "(nat \<times> string) list \<Rightarrow> summary_row \<Rightarrow> summary_row" where
  "patch_all writes r = foldl (\<lambda>r (i, v). if row_id r = i then set_adSpend v r else r) r writes"

text \<open>
  What a read of \<open>existingByLeadSource\<close> can find a record under: its own entries
  and, under \<open>__proto__\<close>, its prototype. A read that finds no record there is
  \<open>blocked\<close> when it finds an inherited member instead, and an entry of the input
  \<open>runs\<close> when the first loop gets past it.
\<close>

definition readable :: "summary_row list \<Rightarrow> (string \<times> summary_row) list" where
  "readable existingRecords =
     foldl (\<lambda>m record. if rLeadSource record \<noteq> [] then AList.update (rLeadSource record) record m else m)
       [] existingRecords"

definition blocked :: "(string \<Rightarrow> bool) \<Rightarrow> (string \<times> summary_row) list \<Rightarrow> string \<Rightarrow> bool" where
  "blocked recordHas rd ls =
     (case map_of rd ''__proto__'' of Some p \<Rightarrow> recordHas ls | None \<Rightarrow> inherited ls)"

definition runs :: "(string \<Rightarrow> bool) \<Rightarrow> (string \<times> summary_row) list \<Rightarrow> string \<times> rat \<Rightarrow> bool" where
  "runs recordHas rd e = (\<not> (snd e > 0 \<and> map_of rd (fst e) = None \<and> blocked recordHas rd (fst e)))"

text \<open>The updates the second loop makes, the updates and the creations the first loop makes.\<close>

definition zero_writes :: "(string \<times> rat) list \<Rightarrow> (string \<times> summary_row) list \<Rightarrow> (nat \<times> string) list" where
  "zero_writes m existing =
     map (\<lambda>(ls, rcd). (row_id rcd, ''0'')) (filter (\<lambda>(ls, rcd). no_spend m ls) existing)"



definition created_rows ::
  "(rat \<Rightarrow> string) \<Rightarrow> string \<Rightarrow> string \<Rightarrow> nat \<Rightarrow> (string \<times> rat) list \<Rightarrow> summary_row list" where
  "created_rows S mn y n news = map (\<lambda>(i, (ls, a)). new_row mn y ls (S a) i) (enumerate n news)"

text \<open>
  The spend by category is a JavaScript object: its keys are distinct. The handler builds
  it from account names, so no key is empty.
\<close>

definition spend_map_ok :: "(string \<times> rat) list \<Rightarrow> bool" where
  "spend_map_ok m = (distinct (map fst m) \<and> [] \<notin> fst ` set m)"


text \<open>
  The month's records are at most the 100 the refresh reads, and no lead source has two
  records in the month.
\<close>

definition fits_page :: "string \<Rightarrow> string \<Rightarrow> summary_row store \<Rightarrow> bool" where
  "fits_page monthName year st = (length (filter (in_period monthName year) (rows st)) \<le> 100)"

definition one_record_per_source :: "string \<Rightarrow> string \<Rightarrow> summary_row store \<Rightarrow> bool" where
  "one_record_per_source monthName year st =
     distinct (map rLeadSource
       (filter (\<lambda>r. in_period monthName year r \<and> rLeadSource r \<noteq> []) (rows st)))"

section \<open>Concrete inputs\<close>

text \<open>Small stores, collaborators and inputs on which the theorems below are run.\<close>

definition jane :: at_row where
  "jane = \<lparr>rec_id = 1, rec_fields = [(''Customer Name'', Str ''Jane Doe'')]\<rparr>"

definition fuzzy_down :: store_select where
  "fuzzy_down q = (if q = all_names_query then Inl UpstreamError else Inr [])"

text \<open>A scorer that gives every candidate it is handed the same Fuse score.\<close>

definition fuse_all :: "rat \<Rightarrow> fuse_search" where
  "fuse_all s th xs pat = Inr (map (\<lambda>x. \<lparr>item = x, score = s\<rparr>) xs)"

definition paid_jane :: at_row where
  "paid_jane =
     \<lparr>rec_id = 1,
      rec_fields = [(''Customer Name'', Str ''Jane Doe''), (''Payment Status'', Str ''Paid''),
                    (''Payment Amount'', Num 250), (''Date Created'', Str ''2025-01-01'')]\<rparr>"

definition jane_table :: "at_row store" where
  "jane_table = \<lparr>rows = [paid_jane], next_id = 2\<rparr>"

definition jane_intake :: customer_data where
  "jane_intake =
     \<lparr>cd_id = None, cd_name = Some ''Jane Doe'', cd_email = None, cd_phone = Some ''555-0100'',
      cd_leadSource = Some ''Angi'', cd_dateCreated = Some ''2025-02-02T10:00:00Z'',
      cd_address = None, cd_notes = None, cd_tags = None\<rparr>"

definition by_name :: "string \<Rightarrow> (at_row \<Rightarrow> bool) option" where
  "by_name formula = Some (\<lambda>r. map_of (rec_fields r) ''Customer Name'' = Some (Str ''Jane Doe''))"

definition day_of :: "string \<Rightarrow> string option" where
  "day_of s = Some (take 10 s)"

definition payments_xxy :: "paid_lead list" where
  "payments_xxy =
     [\<lparr>pl_id = 1, pl_LeadSource = Some ''X'', pl_PaymentAmount = Some 100\<rparr>,
      \<lparr>pl_id = 2, pl_LeadSource = Some ''X'', pl_PaymentAmount = Some 50\<rparr>,
      \<lparr>pl_id = 3, pl_LeadSource = Some ''Y'', pl_PaymentAmount = Some 30\<rparr>]"

text \<open>One paid lead whose lead source is named like a member every object inherits.\<close>

definition payment_constructor :: "paid_lead list" where
  "payment_constructor = [\<lparr>pl_id = 1, pl_LeadSource = Some ''constructor'', pl_PaymentAmount = Some 100\<rparr>]"

definition payment_of :: "string \<Rightarrow> rat \<Rightarrow> payment_info" where
  "payment_of source amount =
     \<lparr>pi_month = 1, pi_year = 2025, pi_leadSource = source, pi_paymentAmount = amount\<rparr>"

definition empty_table :: "summary store" where
  "empty_table = \<lparr>rows = [], next_id = 1\<rparr>"

definition three_payments :: "summary store" where
  "three_payments =
     snd (updateMonthlySummaryWithPayment ''t3'' (payment_of ''Y'' 30)
       (snd (updateMonthlySummaryWithPayment ''t2'' (payment_of ''X'' 50)
         (snd (updateMonthlySummaryWithPayment ''t1'' (payment_of ''X'' 100) empty_table)))))"

text \<open>A month with a payment of 100 from X, then a payment of 50 from \<open>constructor\<close>.\<close>

definition x_then_constructor :: "summary store" where
  "x_then_constructor =
     snd (updateMonthlySummaryWithPayment ''t2'' (payment_of ''constructor'' 50)
       (snd (updateMonthlySummaryWithPayment ''t1'' (payment_of ''X'' 100) empty_table)))"

definition String_int :: "rat \<Rightarrow> string" where
  "String_int x = string_of_int \<lfloor>x\<rfloor>"

definition no_expenses :: "string \<Rightarrow> string \<Rightarrow> string list \<Rightarrow> error + expense list" where
  "no_expenses startDate endDate categories = Inr []"

definition jan15 :: clock where
  "jan15 = \<lparr>now_year = 2025, now_month = 0, now_day = 15\<rparr>"

definition plain_event :: event where
  "plain_event = \<lparr>qs_test = None, qs_testdata = None, qs_debug = None, qs_force = None\<rparr>"

definition empty_rows :: "summary_row store" where
  "empty_rows = \<lparr>rows = [], next_id = 1\<rparr>"

text \<open>
  A month that already holds 100 records, a month with two records for one lead source,
  a month with one record, and the refresh of January 2025 on them.
\<close>

definition crowded :: "summary_row store" where
  "crowded = \<lparr>rows = map (new_row ''January'' ''2025'' ''B'' ''5'') [1..<101], next_id = 101\<rparr>"

definition two_records :: "summary_row store" where
  "two_records = \<lparr>rows = [new_row ''January'' ''2025'' ''A'' ''100'' 1,
                          new_row ''January'' ''2025'' ''A'' ''100'' 2], next_id = 3\<rparr>"

definition one_record :: "summary_row store" where
  "one_record = \<lparr>rows = [new_row ''January'' ''2025'' ''A'' ''100'' 1], next_id = 2\<rparr>"

text \<open>
  The members of a record object that the repository's own code reads, and what every
  object inherits.
\<close>

definition record_has :: "string \<Rightarrow> bool" where
  "record_has name = (name = ''fields'' \<or> name = ''getId'' \<or> inherited name)"

definition refresh :: "(string \<times> rat) list \<Rightarrow> summary_row store \<Rightarrow> summary_row store" where
  "refresh m st = fst (applyAdSpend String_int record_has ''January'' ''2025'' m st)"

text \<open>A month with one record, of the lead source \<open>constructor\<close>.\<close>

definition constructor_record :: "summary_row store" where
  "constructor_record = \<lparr>rows = [new_row ''January'' ''2025'' ''constructor'' ''100'' 1], next_id = 2\<rparr>"

section \<open>Theorems\<close>

subsection \<open>Name reconciliation and error outcomes\<close>

text \<open>
  C1. Whenever the exact, case-insensitive substring query on the name field returns at
  least one record, \<open>findLeadByName\<close> returns the first record of the store's result,
  the only call it makes is that query, and the scorer is not called.
\<close>

theorem findLeadByName_exact_hit:
  assumes "select (exact_query name) = Inr (hit # more_hits)"
  shows "fst (findLeadByName select fuse (Some name) threshold) = Inr (Some hit)
       \<and> snd (findLeadByName select fuse (Some name) threshold) = [StoreSelect (exact_query name)]
       \<and> \<not> list_ex is_scorer_call (snd (findLeadByName select fuse (Some name) threshold))"
  using assms by (simp add: findLeadByName_def is_scorer_call_def)

text \<open>The fast path on the specification's example, "Jane Doe" against a store holding her.\<close>

theorem findLeadByName_exact_hit_witness:
  "fst (findLeadByName (\<lambda>q. Inr [jane]) (\<lambda>t xs p. Inr []) (Some ''Jane Doe'') (double (4 / 5))) = Inr (Some jane)
   \<and> snd (findLeadByName (\<lambda>q. Inr [jane]) (\<lambda>t xs p. Inr []) (Some ''Jane Doe'') (double (4 / 5)))
       = [StoreSelect (exact_query ''Jane Doe'')]
   \<and> \<not> list_ex is_scorer_call
         (snd (findLeadByName (\<lambda>q. Inr [jane]) (\<lambda>t xs p. Inr []) (Some ''Jane Doe'') (double (4 / 5))))"
  by (rule findLeadByName_exact_hit [where more_hits = "[]"]) simp

text \<open>
  C7, as the code has it. \<open>findLeadByName\<close> has no guard on its argument. On
  \<open>null\<close> it raises a TypeError before any call to the store and so returns nothing;
  on the empty string it sends the exact-match query as for any other name, and when that
  query has no hit it goes on to the fuzzy search and returns what that returns.
\<close>

theorem findLeadByName_null_or_empty:
  "findLeadByName select fuse None threshold = (Inl TypeError, [])
   \<and> (\<exists>later. snd (findLeadByName select fuse (Some []) threshold)
                = StoreSelect (exact_query []) # later)
   \<and> (select (exact_query []) = Inr [] \<longrightarrow>
        findLeadByName select fuse (Some []) threshold
          = (Inr (fst (fuzzySearchLeads select fuse [] threshold)),
             StoreSelect (exact_query []) # snd (fuzzySearchLeads select fuse [] threshold)))"
  by (simp add: findLeadByName_def split: sum.split list.split prod.split)

text \<open>The empty name against a store without leads: two queries, the scorer, no match.\<close>

theorem findLeadByName_null_or_empty_witness:
  "fst (findLeadByName (\<lambda>q. Inr []) (\<lambda>t xs p. Inr []) (Some []) (double (4 / 5))) = Inr None
   \<and> map is_scorer_call
         (snd (findLeadByName (\<lambda>q. Inr []) (\<lambda>t xs p. Inr []) (Some []) (double (4 / 5))))
       = [False, False, True]"
  using findLeadByName_null_or_empty [of "\<lambda>q. Inr []" "\<lambda>t xs p. Inr []" "double (4 / 5)"]
  by (simp add: fuzzySearchLeads_def is_scorer_call_def)

text \<open>
  C7 as stated fails: with the empty name and a store without hits, the store is queried
  twice and the scorer is run.
\<close>

theorem findLeadByName_empty_name_queries:
  "findLeadByName (\<lambda>q. Inr []) (\<lambda>t xs p. Inr []) (Some []) (double (4 / 5))
     = (Inr None, [StoreSelect (exact_query []), StoreSelect all_names_query, Scorer (double_sub 1 (double (4 / 5))) []])"
  by (simp add: findLeadByName_def fuzzySearchLeads_def)

lemma double_values:
  "double (4 / 5) = 3602879701896397 / 4503599627370496"
  "double (1 / 5) = 3602879701896397 / 18014398509481984"
  "double (1 / 10) = 3602879701896397 / 36028797018963968"
  "double (9 / 10) = 8106479329266893 / 9007199254740992"
  "double (1 / 3) = 6004799503160661 / 18014398509481984"
  "double 9007199254740993 = 9007199254740992"
  "double 9007199254740995 = 9007199254740996"
  by code_simp+

lemma double_differences:
  "double_sub 1 (double (4 / 5)) = 900719925474099 / 4503599627370496"
  "double_sub 1 (double (1 / 5)) = double (4 / 5)"
  "double_sub 1 (double (1 / 10)) = double (9 / 10)"
  "double_sub 1 (double (9 / 10)) = 900719925474099 / 9007199254740992"
  by code_simp+

text \<open>
  C2, at its boundary. The test \<open>score <= (1 - threshold)\<close> is made on doubles. At the
  default threshold 0.8 the difference \<open>1 - 0.8\<close> is 0.19999999999999996, so a best
  candidate with Fuse score 0.2, whose similarity \<open>1 - 0.2\<close> is 0.8 and equals the
  threshold, is not returned. At threshold 0.1 the difference \<open>1 - 0.1\<close> is 0.9, so a
  best candidate with Fuse score 0.9 is returned although its similarity \<open>1 - 0.9\<close>,
  0.09999999999999998, is below the threshold. The store holds Jane Doe, and the scorer
  gives her the score named.
\<close>

theorem fuzzySearchLeads_boundary:
  "similarity \<lparr>item = to_fuse_item jane, score = double (1 / 5)\<rparr> = double (4 / 5)
   \<and> fuzzySearchLeads (\<lambda>q. Inr [jane]) (fuse_all (double (1 / 5))) ''Jane Do'' (double (4 / 5))
       = (None, [StoreSelect all_names_query, Scorer (double_sub 1 (double (4 / 5))) ''Jane Do''])
   \<and> similarity \<lparr>item = to_fuse_item jane, score = double (9 / 10)\<rparr> < double (1 / 10)
   \<and> 1 - double (9 / 10) < double (1 / 10)
   \<and> fst (fuzzySearchLeads (\<lambda>q. Inr [jane]) (fuse_all (double (9 / 10))) ''Jane Do'' (double (1 / 10)))
       = Some jane"
  by (simp add: fuzzySearchLeads_def fuse_all_def similarity_def double_differences to_fuse_item_def
      jane_def)
     (simp add: double_values)

text \<open>
  C9, as the code has it. A failure of the store query inside \<open>fuzzySearchLeads\<close>
  is caught and becomes the ordinary no-match (also through \<open>findLeadByName\<close>), and so
  does an exception of the scorer; a failure of the expense fetch becomes ordinary zero
  totals; only the failure of \<open>findLeadByName\<close>'s own exact-match query is raised to
  the caller.
\<close>

theorem failures_swallowed:
  assumes "select (exact_query name) = Inr []"
      and "select all_names_query = Inl e"
      and "select' (exact_query name) = Inl e'"
  shows "fst (fuzzySearchLeads select fuse name threshold) = None
       \<and> fst (findLeadByName select fuse (Some name) threshold) = Inr None
       \<and> getMonthlyExpenses (Inl e'') month year = zero_expenses month year
       \<and> fst (findLeadByName select' fuse (Some name) threshold) = Inl e'
       \<and> (listing all_names_query = Inr allRecords
            \<and> scorer (double_sub 1 threshold) (map to_fuse_item allRecords) name = Inl raised
          \<longrightarrow> fst (fuzzySearchLeads listing scorer name threshold) = None)"
  using assms by (simp add: findLeadByName_def fuzzySearchLeads_def getMonthlyExpenses_def)

text \<open>
  A store whose full listing fails and whose exact-match query finds nothing; and a store
  that lists Jane Doe, with a scorer that raises.
\<close>

theorem failures_swallowed_witness:
  "fst (fuzzySearchLeads fuzzy_down (\<lambda>t xs p. Inr []) ''Jane'' (double (4 / 5))) = None
   \<and> fst (findLeadByName fuzzy_down (\<lambda>t xs p. Inr []) (Some ''Jane'') (double (4 / 5))) = Inr None
   \<and> getMonthlyExpenses (Inl UpstreamError) 1 2025 = zero_expenses 1 2025
   \<and> fst (findLeadByName (\<lambda>q. Inl UpstreamError) (\<lambda>t xs p. Inr []) (Some ''Jane'') (double (4 / 5)))
       = Inl UpstreamError
   \<and> fst (fuzzySearchLeads (\<lambda>q. Inr [jane]) (\<lambda>t xs p. Inl TypeError) ''Jane'' (double (4 / 5))) = None"
proof -
  have a: "fuzzy_down (exact_query ''Jane'') = Inr []"
    by (simp add: fuzzy_down_def exact_query_def all_names_query_def)
  have b: "fuzzy_down all_names_query = Inl UpstreamError"
    by (simp add: fuzzy_down_def)
  show ?thesis
    using failures_swallowed [OF a b, of "\<lambda>q. Inl UpstreamError" UpstreamError "\<lambda>t xs p. Inr []"
        "double (4 / 5)" UpstreamError 1 2025 "\<lambda>q. Inr [jane]" "[jane]" "\<lambda>t xs p. Inl TypeError"
        TypeError]
    by simp
qed

text \<open>
  C9 as stated fails: with the store down, the fuzzy search reports no-match, and with the
  fetch failing the monthly expenses are reported as zeros.
\<close>

theorem fuzzy_store_failure_is_no_match:
  "fuzzySearchLeads (\<lambda>q. Inl UpstreamError) (\<lambda>t xs p. Inr []) ''Jane'' (double (4 / 5))
     = (None, [StoreSelect all_names_query])
   \<and> adSpend (getMonthlyExpenses (Inl UpstreamError) 1 2025) = Some 0
   \<and> promoSpend (getMonthlyExpenses (Inl UpstreamError) 1 2025) = Some 0
   \<and> totalSpend (getMonthlyExpenses (Inl UpstreamError) 1 2025) = Some 0"
  by (simp add: fuzzySearchLeads_def getMonthlyExpenses_def zero_expenses_def)

subsection \<open>Lead intake\<close>

lemma merge_fields_other:
  "k \<notin> fst ` set obj \<Longrightarrow> map_of (merge_fields fs obj) k = map_of fs k"
proof (induction fs obj rule: merge_fields.induct)
  case (1 fs)
  then show ?case by simp
next
  case (2 fs k' obj)
  then show ?case by simp
next
  case (3 fs k' v obj)
  then show ?case by (simp add: update_conv')
qed

lemma recordData_keys:
  "fst ` set (lead_recordData cd name d) =
     {''Customer Name'', ''Email'', ''Phone'', ''Lead Source'', ''Date Created'',
      ''HCP Customer ID'', ''Address'', ''Notes'', ''Tags''}"
  by (simp add: lead_recordData_def)

lemma updateData_keys:
  "fst ` set (lead_updateData existing obj) \<subseteq> fst ` set obj"
proof -
  have d: "fst ` set (AList.delete k al) \<subseteq> fst ` set al" for k and al :: js_object
    by (rule AList.dom_delete_subset)
  have d2: "fst ` set (AList.delete k (AList.delete k' al)) \<subseteq> fst ` set al"
    for k k' and al :: js_object
    by (rule subset_trans [OF d d])
  have d3: "fst ` set (AList.delete k (AList.delete k' (AList.delete k'' al))) \<subseteq> fst ` set al"
    for k k' k'' and al :: js_object
    by (rule subset_trans [OF d d2])
  show ?thesis
    by (simp add: lead_updateData_def Let_def d d2 d3)
qed

lemma updateData_no_date:
  "truthy (map_of existing ''Date Created'') \<Longrightarrow>
     ''Date Created'' \<notin> fst ` set (lead_updateData existing obj)"
  by (simp add: lead_updateData_def Let_def AList.delete_notin_dom)

lemma updateData_no_payment_status:
  "''Payment Status'' \<notin> fst ` set (lead_updateData existing (lead_recordData cd name d))"
proof -
  have "''Payment Status'' \<notin> fst ` set (lead_recordData cd name d)"
    by (simp add: recordData_keys)
  then show ?thesis
    using updateData_keys [of existing "lead_recordData cd name d"] by blast
qed

lemma updateData_no_payment_amount:
  "''Payment Amount'' \<notin> fst ` set (lead_updateData existing (lead_recordData cd name d))"
proof -
  have "''Payment Amount'' \<notin> fst ` set (lead_recordData cd name d)"
    by (simp add: recordData_keys)
  then show ?thesis
    using updateData_keys [of existing "lead_recordData cd name d"] by blast
qed

lemma merge_fields_map_of:
  "distinct (map fst obj) \<Longrightarrow>
     map_of (merge_fields fs obj) k
       = (case map_of obj k of Some (Some v) \<Rightarrow> Some v | _ \<Rightarrow> map_of fs k)"
proof (induction fs obj rule: merge_fields.induct)
  case (1 fs)
  then show ?case by simp
next
  case (2 fs k' obj)
  then have fresh: "map_of obj k' = None" and dist: "distinct (map fst obj)"
    by (simp_all add: map_of_eq_None_iff)
  show ?case
  proof (cases "k = k'")
    case True
    with fresh "2.IH" [OF dist] show ?thesis by simp
  next
    case False
    with "2.IH" [OF dist] show ?thesis by simp
  qed
next
  case (3 fs k' v obj)
  then have fresh: "map_of obj k' = None" and dist: "distinct (map fst obj)"
    by (simp_all add: map_of_eq_None_iff)
  show ?case
  proof (cases "k = k'")
    case True
    with fresh "3.IH" [OF dist] show ?thesis by (simp add: update_conv')
  next
    case False
    with "3.IH" [OF dist] show ?thesis by (simp add: update_conv' split: option.split)
  qed
qed

lemma recordData_distinct: "distinct (map fst (lead_recordData cd name d))"
  by (simp add: lead_recordData_def)

lemma new_record_defaults:
  fixes cd name d
  defines "obj \<equiv> AList.update ''Payment Amount'' (Some (Num 0))
                   (AList.update ''Payment Status'' (Some (Str ''Pending''))
                      (lead_recordData cd name d))"
  shows "map_of (merge_fields [] obj) ''Payment Status'' = Some (Str ''Pending'')"
    and "map_of (merge_fields [] obj) ''Payment Amount'' = Some (Num 0)"
proof -
  have dist: "distinct (map fst obj)"
    unfolding obj_def by (intro distinct_update recordData_distinct)
  have "map_of obj ''Payment Status'' = Some (Some (Str ''Pending''))"
    and "map_of obj ''Payment Amount'' = Some (Some (Num 0))"
    unfolding obj_def by (simp_all add: update_conv')
  then show "map_of (merge_fields [] obj) ''Payment Status'' = Some (Str ''Pending'')"
    and "map_of (merge_fields [] obj) ''Payment Amount'' = Some (Num 0)"
    by (simp_all add: merge_fields_map_of [OF dist])
qed

lemma store_select_first_in_rows:
  "store_select matches n st = x # xs \<Longrightarrow> x \<in> set (rows st)"
proof -
  assume "store_select matches n st = x # xs"
  then have "x \<in> set (take n (filter matches (rows st)))"
    by (simp add: store_select_def)
  then have "x \<in> set (filter matches (rows st))"
    by (rule in_set_takeD)
  then show ?thesis by simp
qed

text \<open>
  C10. An intake upsert that finds an existing record leaves Payment Status and Payment
  Amount of every record as they were (the update never carries these fields, with or
  without payment state on the record) and changes no Date Created that is non-empty;
  an upsert that finds none appends one record whose Payment Status is Pending and whose
  Payment Amount is 0.
\<close>

theorem upsertLead_frame:
  assumes name: "cd_name cd = Some name"
      and sem: "sem (upsert_formula name (cd_email cd)) = Some matches"
      and ok: "upsertLead sem isoDate cd tbl = Inr (res, tbl')"
      and ids: "distinct (map rec_id (rows tbl))"
  shows "case store_select matches 1 tbl of
           existing # _ \<Rightarrow>
             wasUpdated res
             \<and> column ''Payment Status'' tbl' = column ''Payment Status'' tbl
             \<and> column ''Payment Amount'' tbl' = column ''Payment Amount'' tbl
             \<and> list_all2
                 (\<lambda>old new. truthy (map_of (rec_fields old) ''Date Created'') \<longrightarrow>
                    map_of (rec_fields new) ''Date Created'' = map_of (rec_fields old) ''Date Created'')
                 (rows tbl) (rows tbl')
         | [] \<Rightarrow>
             \<not> wasUpdated res
             \<and> (\<exists>new. rows tbl' = rows tbl @ [new]
                  \<and> map_of (rec_fields new) ''Payment Status'' = Some (Str ''Pending'')
                  \<and> map_of (rec_fields new) ''Payment Amount'' = Some (Num 0))"
proof (cases "store_select matches 1 tbl")
  case Nil
  from ok obtain d where d: "format_date isoDate (cd_dateCreated cd) = Inr d"
    using name sem by (auto simp: upsertLead_def Let_def split: sum.splits)
  from ok name sem Nil d show ?thesis
    by (auto simp: upsertLead_def Let_def store_create_def new_record_defaults)
next
  case (Cons existing others)
  from ok obtain d where d: "format_date isoDate (cd_dateCreated cd) = Inr d"
    using name sem by (auto simp: upsertLead_def Let_def split: sum.splits)
  define upd where "upd = lead_updateData (rec_fields existing) (lead_recordData cd name d)"
  define f :: "at_row \<Rightarrow> at_row" where "f = (\<lambda>r. if rec_id r = rec_id existing
                            then r\<lparr>rec_fields := merge_fields (rec_fields r) upd\<rparr> else r)"
  from ok name sem Cons d have res: "wasUpdated res" and tbl': "rows tbl' = map f (rows tbl)"
    by (auto simp: upsertLead_def Let_def store_update_def upd_def f_def)
  have ps: "map_of (rec_fields (f r)) ''Payment Status'' = map_of (rec_fields r) ''Payment Status''" for r
    by (simp add: f_def upd_def merge_fields_other updateData_no_payment_status)
  have pa: "map_of (rec_fields (f r)) ''Payment Amount'' = map_of (rec_fields r) ''Payment Amount''" for r
    by (simp add: f_def upd_def merge_fields_other updateData_no_payment_amount)
  have ex_in: "existing \<in> set (rows tbl)"
    using Cons by (rule store_select_first_in_rows)
  have dc: "map_of (rec_fields (f r)) ''Date Created'' = map_of (rec_fields r) ''Date Created''"
    if "r \<in> set (rows tbl)" and "truthy (map_of (rec_fields r) ''Date Created'')" for r
  proof (cases "rec_id r = rec_id existing")
    case False
    then show ?thesis by (simp add: f_def)
  next
    case True
    with ids that(1) ex_in have "r = existing"
      by (meson distinct_map inj_onD)
    with that(2) show ?thesis
      by (simp add: f_def upd_def merge_fields_other updateData_no_date)
  qed
  have "list_all2
          (\<lambda>old new. truthy (map_of (rec_fields old) ''Date Created'') \<longrightarrow>
             map_of (rec_fields new) ''Date Created'' = map_of (rec_fields old) ''Date Created'')
          (rows tbl) (map f (rows tbl))"
    using dc by (simp add: list_all2_map2 list_all2_same)
  with res ps pa tbl' Cons show ?thesis
    by (simp add: column_def)
qed

text \<open>A second intake of Jane Doe, whose record is already paid.\<close>

theorem upsertLead_frame_witness:
  "has_payment_state (rec_fields paid_jane)
   \<and> (\<exists>res tbl'. upsertLead by_name day_of jane_intake jane_table = Inr (res, tbl')
         \<and> column ''Payment Status'' tbl' = [Some (Str ''Paid'')]
         \<and> column ''Payment Amount'' tbl' = [Some (Num 250)]
         \<and> column ''Date Created'' tbl' = [Some (Str ''2025-01-01'')])"
proof -
  have name: "cd_name jane_intake = Some ''Jane Doe''"
    by (simp add: jane_intake_def)
  have sem: "by_name (upsert_formula ''Jane Doe'' (cd_email jane_intake))
               = Some (\<lambda>r. map_of (rec_fields r) ''Customer Name'' = Some (Str ''Jane Doe''))"
    by (simp add: by_name_def)
  have sel: "store_select (\<lambda>r. map_of (rec_fields r) ''Customer Name'' = Some (Str ''Jane Doe'')) 1
               jane_table = [paid_jane]"
    by (simp add: store_select_def jane_table_def paid_jane_def)
  have ids: "distinct (map rec_id (rows jane_table))"
    by (simp add: jane_table_def)
  have run: "upsertLead by_name day_of jane_intake jane_table
               = Inr (\<lparr>ur_id = rec_id paid_jane,
                        ur_fields = merge_fields (rec_fields paid_jane)
                          (lead_updateData (rec_fields paid_jane)
                             (lead_recordData jane_intake ''Jane Doe'' (Some ''2025-02-02''))),
                        wasUpdated = True\<rparr>,
                      store_update rec_id (rec_id paid_jane)
                        (\<lambda>r. r\<lparr>rec_fields := merge_fields (rec_fields r)
                           (lead_updateData (rec_fields paid_jane)
                              (lead_recordData jane_intake ''Jane Doe'' (Some ''2025-02-02'')))\<rparr>)
                        jane_table)"
  proof -
    have date: "format_date day_of (cd_dateCreated jane_intake) = Inr (Some ''2025-02-02'')"
      by (simp add: format_date_def truthy_str_def day_of_def jane_intake_def or_empty_def)
    show ?thesis
      unfolding upsertLead_def by (simp add: name sem sel [unfolded One_nat_def] date Let_def)
  qed
  then obtain res tbl' where ok: "upsertLead by_name day_of jane_intake jane_table = Inr (res, tbl')"
    and tbl': "tbl' = store_update rec_id (rec_id paid_jane)
                        (\<lambda>r. r\<lparr>rec_fields := merge_fields (rec_fields r)
                           (lead_updateData (rec_fields paid_jane)
                              (lead_recordData jane_intake ''Jane Doe'' (Some ''2025-02-02'')))\<rparr>)
                        jane_table"
    by simp
  have len: "length (rows tbl') = 1"
    by (simp add: tbl' store_update_def jane_table_def)
  from upsertLead_frame [OF name sem ok ids, unfolded sel]
  have ps: "column ''Payment Status'' tbl' = column ''Payment Status'' jane_table"
    and pa: "column ''Payment Amount'' tbl' = column ''Payment Amount'' jane_table"
    and dc: "list_all2
               (\<lambda>old new. truthy (map_of (rec_fields old) ''Date Created'') \<longrightarrow>
                  map_of (rec_fields new) ''Date Created'' = map_of (rec_fields old) ''Date Created'')
               (rows jane_table) (rows tbl')"
    by simp_all
  from len obtain r' where r': "rows tbl' = [r']"
    by (cases "rows tbl'") simp_all
  from dc r' have "map_of (rec_fields r') ''Date Created'' = Some (Str ''2025-01-01'')"
    by (simp add: jane_table_def paid_jane_def truthy_def)
  with r' have "column ''Date Created'' tbl' = [Some (Str ''2025-01-01'')]"
    by (simp add: column_def)
  moreover have "has_payment_state (rec_fields paid_jane)"
    by (simp add: has_payment_state_def paid_jane_def)
  moreover from ps have "column ''Payment Status'' tbl' = [Some (Str ''Paid'')]"
    by (simp add: column_def jane_table_def paid_jane_def)
  moreover from pa have "column ''Payment Amount'' tbl' = [Some (Num 250)]"
    by (simp add: column_def jane_table_def paid_jane_def)
  ultimately show ?thesis using ok by blast
qed

subsection \<open>Revenue aggregation\<close>

lemma map_of_ensure_source:
  "map_of (ensure_source s agg) k
     = (if k = s \<and> map_of agg s = None \<and> \<not> inherited s then Some zero_stats else map_of agg k)"
  by (simp add: ensure_source_def update_conv' split: option.split)

lemma map_of_aggregate_step:
  "map_of (aggregate_step agg lead) k
     = (if k = lead_source_of lead
        then (case map_of agg k of
                Some e \<Rightarrow> Some (add_payment (lead_amount_of lead) e)
              | None \<Rightarrow> if inherited k then None
                        else Some (add_payment (lead_amount_of lead) zero_stats))
        else map_of agg k)"
  by (auto simp: aggregate_step_def map_of_map_entry map_of_ensure_source split: option.split)

lemma aggregate_snoc:
  "aggregateRevenueBySource (leads @ [lead]) = aggregate_step (aggregateRevenueBySource leads) lead"
  by (simp add: aggregateRevenueBySource_def)

text \<open>A source named like an inherited member never gets an entry.\<close>

lemma inherited_source_no_entry:
  "inherited s \<Longrightarrow> map_of (aggregateRevenueBySource leads) s = None"
proof (induction leads rule: rev_induct)
  case Nil
  then show ?case by (simp add: aggregateRevenueBySource_def)
next
  case (snoc lead leads)
  then show ?case by (auto simp: aggregate_snoc map_of_aggregate_step)
qed

text \<open>Every other source has the sum, the number and the quotient of its payments.\<close>

lemma aggregate_sound:
  assumes "\<not> inherited s"
  shows "map_of (aggregateRevenueBySource leads) s
     = (if source_count s leads = 0 then None
        else Some \<lparr>totalRevenue = source_total s leads,
                   customerCount = source_count s leads,
                   averageRevenue = source_total s leads / of_nat (source_count s leads)\<rparr>)"
proof (induction leads rule: rev_induct)
  case Nil
  then show ?case by (simp add: aggregateRevenueBySource_def source_count_def)
next
  case (snoc lead leads)
  show ?case
  proof (cases "lead_source_of lead = s")
    case False
    with snoc show ?thesis
      by (simp add: aggregate_snoc map_of_aggregate_step source_count_def source_total_def)
  next
    case True
    with snoc assms show ?thesis
      by (simp add: aggregate_snoc map_of_aggregate_step source_count_def source_total_def
          add_payment_def zero_stats_def Let_def)
  qed
qed

lemma leads_total_sum: "leads_totalRevenue leads = sum_list (map lead_amount_of leads)"
proof -
  have "foldl (\<lambda>sum lead. sum + lead_amount_of lead) a leads = a + sum_list (map lead_amount_of leads)"
    for a
    by (induction leads arbitrary: a) (simp_all add: add.assoc)
  then show ?thesis by (simp add: leads_totalRevenue_def)
qed

lemma not_inherited_XY: "\<not> inherited ''X''" "\<not> inherited ''Y''"
  by (simp_all add: inherited_def object_prototype_def)

lemma aggregate_xxy:
  "aggregateRevenueBySource payments_xxy
     = [(''X'', \<lparr>totalRevenue = 150, customerCount = 2, averageRevenue = 75\<rparr>),
        (''Y'', \<lparr>totalRevenue = 30, customerCount = 1, averageRevenue = 30\<rparr>)]"
  by (simp add: aggregateRevenueBySource_def payments_xxy_def aggregate_step_def ensure_source_def
      add_payment_def zero_stats_def lead_source_of_def lead_amount_of_def truthy_str_def
      or_empty_def Let_def not_inherited_XY)

lemma totals_xxy:
  "leads_totalRevenue payments_xxy = 180"
  "sources_totalRevenue (aggregateRevenueBySource payments_xxy) = 180"
  by (simp_all add: aggregate_xxy sources_totalRevenue_def)
     (simp add: leads_totalRevenue_def payments_xxy_def lead_amount_of_def)

lemma three_payments_rows:
  "map sRevenueBySource (rows three_payments)
     = [Some (Json [(''X'', \<lparr>totalRevenue = 150, customerCount = 2, averageRevenue = 75\<rparr>),
                    (''Y'', \<lparr>totalRevenue = 30, customerCount = 1, averageRevenue = 30\<rparr>)])]"
  "map sTotalRevenue (rows three_payments) = [Some 180]"
  by (simp_all add: three_payments_def updateMonthlySummaryWithPayment_def Let_def store_select_def
      store_create_def store_update_def empty_table_def payment_of_def payment_recordData_def
      payment_updateData_def empty_summary_def parse_revenueBySource_def ensure_source_def
      add_payment_def zero_stats_def or0_def not_inherited_XY)

text \<open>
  After a payment is folded into the month's summary, the entry of its source has its
  average equal to total over count, unless the source is named like an inherited member.
\<close>

lemma payment_fold_average:
  assumes "\<not> inherited (pi_leadSource p)"
  shows "source_average_ok (pi_leadSource p) (fst (updateMonthlySummaryWithPayment now p st))"
proof (cases "store_select (\<lambda>r. sPeriod r = Some (period_key (pi_year p) (pi_month p))) 1 st")
  case Nil
  then show ?thesis
    by (simp add: updateMonthlySummaryWithPayment_def Let_def store_create_def
        payment_recordData_def source_average_ok_def)
next
  case (Cons existing others)
  have "map_of (AList.map_entry k (add_payment a) (ensure_source k obj)) k
          = Some (add_payment a (case map_of obj k of None \<Rightarrow> zero_stats | Some e \<Rightarrow> e))"
    if "\<not> inherited k" for k a obj
    using that by (simp add: map_of_map_entry map_of_ensure_source split: option.split)
  with Cons assms show ?thesis
    by (simp add: updateMonthlySummaryWithPayment_def Let_def payment_updateData_def
        source_average_ok_def add_payment_def)
qed

lemma inherited_constructor: "inherited ''constructor''"
  by (simp add: inherited_def object_prototype_def)

text \<open>
  C3, where it fails. A paid lead whose lead source is \<open>constructor\<close> finds the
  inherited member of that name in the test \<open>!aggregation[source]\<close>: no entry is
  made, the aggregation comes back empty, and the sum over the sources is 0 where the
  total revenue is 100. The incremental update has the same test: a payment of 50 from
  \<open>constructor\<close>, folded into a month that holds a payment of 100 from X, raises
  the month's total to 150 and leaves the sources as they were. (For every source not
  named like a member of \<open>Object.prototype\<close> the entries are right:
  \<open>aggregate_sound\<close>, \<open>aggregate_xxy\<close>, \<open>payment_fold_average\<close>.)
\<close>

theorem inherited_source_is_lost:
  "aggregateRevenueBySource payment_constructor = []
   \<and> leads_totalRevenue payment_constructor = 100
   \<and> sources_totalRevenue (aggregateRevenueBySource payment_constructor) = 0
   \<and> map sRevenueBySource (rows x_then_constructor)
       = [Some (Json [(''X'', \<lparr>totalRevenue = 100, customerCount = 1, averageRevenue = 100\<rparr>)])]
   \<and> map sTotalRevenue (rows x_then_constructor) = [Some 150]"
  by (simp add: aggregateRevenueBySource_def payment_constructor_def aggregate_step_def
      ensure_source_def lead_source_of_def lead_amount_of_def truthy_str_def or_empty_def
      inherited_constructor leads_totalRevenue_def sources_totalRevenue_def
      x_then_constructor_def updateMonthlySummaryWithPayment_def Let_def store_select_def
      store_create_def store_update_def empty_table_def payment_of_def payment_recordData_def
      payment_updateData_def empty_summary_def parse_revenueBySource_def or0_def)

subsection \<open>Return on ad spend\<close>









subsection \<open>The day-of-month check\<close>

text \<open>
  C8, as the code has it. On a day other than the 3rd, without the force flag, with the
  Airtable configuration present and none of the test parameters set (\<open>test\<close>,
  and for version 3 also \<open>testdata\<close> and \<open>debug\<close>), both handlers leave the summary
  table alone, make no call on it, and answer 200 with the notice and a \<open>nextRun\<close>
  field.
\<close>

theorem gate_is_noop:
  assumes "now_day now \<noteq> 3" and "\<not> truthy_str (qs_force ev)" and "configured"
      and "\<not> truthy_str (qs_test ev)" and "\<not> truthy_str (qs_testdata ev)"
      and "\<not> truthy_str (qs_debug ev)"
  shows "(\<exists>nextRun. handler_v3 String_num recordHas configured qbConnected fetch now ev summaryRows
            = (\<lparr>statusCode = 200, response_body = NotToday not_today_message nextRun\<rparr>,
               summaryRows, []))
       \<and> (\<exists>nextRun. handler_v2 configured now_iso now ev summaryTable
            = (\<lparr>statusCode = 200, response_body = NotToday not_today_message nextRun\<rparr>,
               summaryTable, []))"
  using assms by (simp add: handler_v3_def handler_v2_def)

text \<open>The 15th of January 2025, a plain scheduled event.\<close>

theorem gate_is_noop_witness:
  "fst (snd (handler_v3 String_int record_has True False no_expenses jan15 plain_event empty_rows)) = empty_rows
   \<and> snd (snd (handler_v3 String_int record_has True False no_expenses jan15 plain_event empty_rows)) = []
   \<and> statusCode (fst (handler_v3 String_int record_has True False no_expenses jan15 plain_event empty_rows)) = 200
   \<and> snd (snd (handler_v2 True ''t'' jan15 plain_event empty_table)) = []"
proof -
  have d: "now_day jan15 \<noteq> 3" by (simp add: jan15_def)
  have f: "\<not> truthy_str (qs_force plain_event)" "\<not> truthy_str (qs_test plain_event)"
    "\<not> truthy_str (qs_testdata plain_event)" "\<not> truthy_str (qs_debug plain_event)"
    by (simp_all add: plain_event_def truthy_str_def)
  from gate_is_noop [OF d f(1) TrueI f(2) f(3) f(4), of String_int record_has False no_expenses
      empty_rows "''t''" empty_table]
  show ?thesis by auto
qed

text \<open>
  C8 as stated fails: on the 15th, without the force flag, a request with \<open>testdata\<close>
  set makes version 3 create five summary records.
\<close>

theorem testdata_writes_off_day:
  "snd (snd (handler_v3 String_int record_has True False no_expenses jan15
               (plain_event\<lparr>qs_testdata := Some ''1''\<rparr>) empty_rows))
     = [Create, Create, Create, Create, Create]
   \<and> map rLeadSource (rows (fst (snd (handler_v3 String_int record_has True False no_expenses jan15
               (plain_event\<lparr>qs_testdata := Some ''1''\<rparr>) empty_rows))))
     = [''Box Truck'', ''Angi'', ''Yard Sign'', ''Billboard'', ''Google Ads'']"
  by (simp add: handler_v3_def plain_event_def truthy_str_def jan15_def previous_month_def
      sampleAdSpend_def testdata_step_def store_create_def empty_rows_def op_of_detail_def
      new_row_def)

text \<open>
  The \<open>nextRun\<close> text is the 3rd of the current month, also after the 3rd: on the 15th
  of January 2025 it is a day that has passed.
\<close>

lemma next_run_after_the_third: "next_run jan15 = ''2025-01-03''"
  by code_simp

subsection \<open>The ad-spend refresh of version 3\<close>

lemma patch_all_Nil [simp]: "patch_all [] r = r"
  by (simp add: patch_all_def)

lemma patch_all_Cons:
  "patch_all ((i, v) # writes) r = patch_all writes (if row_id r = i then set_adSpend v r else r)"
  by (simp add: patch_all_def)

lemma keys_of_set_adSpend [simp]: "keys_of (set_adSpend v r) = keys_of r"
  by (simp add: keys_of_def set_adSpend_def)

lemma keys_of_patch_all [simp]: "keys_of (patch_all writes r) = keys_of r"
proof (induction writes arbitrary: r)
  case Nil
  then show ?case by simp
next
  case (Cons w writes)
  then show ?case by (cases w) (simp add: patch_all_Cons)
qed

lemma patch_all_const:
  assumes "row_id r \<in> fst ` set writes" and "\<forall>w \<in> set writes. fst w = row_id r \<longrightarrow> snd w = v"
  shows "rAdSpend (patch_all writes r) = v"
  using assms
proof (induction writes arbitrary: r rule: rev_induct)
  case Nil
  then show ?case by simp
next
  case (snoc w writes)
  obtain i v' where w: "w = (i, v')" by (cases w)
  have step: "patch_all (writes @ [w]) r
                = (if row_id (patch_all writes r) = i then set_adSpend v' (patch_all writes r)
                   else patch_all writes r)"
    by (simp add: patch_all_def w)
  have id: "row_id (patch_all writes r) = row_id r"
    using keys_of_patch_all [of writes r] by (simp add: keys_of_def)
  show ?case
  proof (cases "i = row_id r")
    case True
    with snoc.prems(2) w have "v' = v" by simp
    with True step id show ?thesis by (simp add: set_adSpend_def)
  next
    case False
    with snoc.prems(1) w have "row_id r \<in> fst ` set writes" by auto
    moreover from snoc.prems(2) have "\<forall>w \<in> set writes. fst w = row_id r \<longrightarrow> snd w = v" by simp
    ultimately have "rAdSpend (patch_all writes r) = v" by (rule snoc.IH)
    with False step id show ?thesis by simp
  qed
qed



lemma in_period_patch_all [simp]: "in_period mn y (patch_all ws r) = in_period mn y r"
  using keys_of_patch_all [of ws r] by (simp add: keys_of_def in_period_def)

lemma row_id_patch_all [simp]: "row_id (patch_all ws r) = row_id r"
  using keys_of_patch_all [of ws r] by (simp add: keys_of_def)

lemma rLeadSource_patch_all [simp]: "rLeadSource (patch_all ws r) = rLeadSource r"
  using keys_of_patch_all [of ws r] by (simp add: keys_of_def)

lemma rows_store_update:
  "rows (store_update row_id i (set_adSpend v) st)
     = map (\<lambda>r. if row_id r = i then set_adSpend v r else r) (rows st)"
  "next_id (store_update row_id i (set_adSpend v) st) = next_id st"
  by (simp_all add: store_update_def)


lemma find_SomeD: "find Q xs = Some z \<Longrightarrow> z \<in> set xs \<and> Q z"
  by (induction xs) (auto split: if_splits)



lemma find_unique:
  assumes "distinct (map f (filter Q xs))" and "x \<in> set xs" and "Q x"
      and "\<forall>z \<in> set xs. f z = f x \<longrightarrow> Q z"
  shows "find (\<lambda>z. f z = f x) (rev xs) = Some x"
proof -
  from assms(2) have "\<exists>z \<in> set (rev xs). f z = f x" by auto
  then obtain z where z: "find (\<lambda>z. f z = f x) (rev xs) = Some z"
    by (cases "find (\<lambda>z. f z = f x) (rev xs)") (auto simp: find_None_iff)
  from find_SomeD [OF z] have zin: "z \<in> set xs" and fz: "f z = f x"
    by simp_all
  with assms(4) have "Q z" by blast
  with zin have "z \<in> set (filter Q xs)" by simp
  moreover from assms(2,3) have "x \<in> set (filter Q xs)" by simp
  ultimately have "z = x"
    using assms(1) fz by (meson distinct_map inj_onD)
  with z show ?thesis by simp
qed

text \<open>The dictionary of the month's records: what a read finds, and its own entries.\<close>

lemma readable_snoc:
  "readable (rs @ [r])
     = (if rLeadSource r \<noteq> [] then AList.update (rLeadSource r) r (readable rs) else readable rs)"
  by (simp add: readable_def)

lemma map_of_readable:
  "map_of (readable rs) ls
     = (if ls = [] then None else find (\<lambda>r. rLeadSource r = ls) (rev rs))"
proof (induction rs rule: rev_induct)
  case Nil
  then show ?case by (simp add: readable_def)
next
  case (snoc r rs)
  then show ?case by (auto simp: readable_snoc update_conv')
qed

lemma existing_snoc:
  "existingByLeadSource (rs @ [r])
     = (if rLeadSource r \<noteq> [] \<and> rLeadSource r \<noteq> ''__proto__''
        then AList.update (rLeadSource r) r (existingByLeadSource rs)
        else existingByLeadSource rs)"
  by (simp add: existingByLeadSource_def)

lemma map_of_existing:
  "map_of (existingByLeadSource rs) ls
     = (if ls = ''__proto__'' then None else map_of (readable rs) ls)"
proof (induction rs rule: rev_induct)
  case Nil
  then show ?case by (simp add: existingByLeadSource_def readable_def)
next
  case (snoc r rs)
  then show ?case by (auto simp: existing_snoc readable_snoc update_conv')
qed

lemma existing_prototype_readable:
  "existing_prototype rs = map_of (readable rs) ''__proto__''"
proof (induction rs rule: rev_induct)
  case Nil
  then show ?case by (simp add: existing_prototype_def readable_def)
next
  case (snoc r rs)
  then show ?case by (auto simp: existing_prototype_def readable_snoc update_conv')
qed

lemma distinct_existing: "distinct (map fst (existingByLeadSource rs))"
proof (induction rs rule: rev_induct)
  case Nil
  then show ?case by (simp add: existingByLeadSource_def)
next
  case (snoc r rs)
  then show ?case by (simp add: existing_snoc distinct_update)
qed

lemma existing_entry_iff:
  "(ls, rcd) \<in> set (existingByLeadSource rs)
     \<longleftrightarrow> ls \<noteq> ''__proto__'' \<and> map_of (readable rs) ls = Some rcd"
proof -
  have "(ls, rcd) \<in> set (existingByLeadSource rs) \<longleftrightarrow> map_of (existingByLeadSource rs) ls = Some rcd"
    using distinct_existing [of rs] by simp
  then show ?thesis by (simp add: map_of_existing)
qed

lemma inherited_proto: "inherited ''__proto__''"
  by (simp add: inherited_def object_prototype_def)

lemma existing_lookup_readable:
  "existing_lookup rm (existingByLeadSource rs) (existing_prototype rs) ls
     = (case map_of (readable rs) ls of
          Some rcd \<Rightarrow> Existing rcd
        | None \<Rightarrow> if blocked rm (readable rs) ls then NotARecord else Absent)"
  by (auto simp: existing_lookup_def map_of_existing existing_prototype_readable blocked_def
      inherited_proto split: option.splits)

text \<open>One turn of each loop, and the loops once an exception has left them.\<close>

lemma spend_step_failed [simp]:
  "spend_step S rm mn y ex pr (st, ds, Some e) entry = (st, ds, Some e)"
  by (simp add: spend_step_def)

lemma spend_loop_failed [simp]:
  "foldl (spend_step S rm mn y ex pr) (st, ds, Some e) es = (st, ds, Some e)"
  by (induction es) simp_all

lemma zero_step_failed [simp]: "zero_step m (st, ds, Some e) entry = (st, ds, Some e)"
  by (simp add: zero_step_def)

lemma zero_loop_failed [simp]: "foldl (zero_step m) (st, ds, Some e) es = (st, ds, Some e)"
  by (induction es) simp_all

lemma spend_step_skip:
  "\<not> a > 0 \<Longrightarrow> spend_step S rm mn y ex pr (st, ds, None) (ls, a) = (st, ds, None)"
  by (simp add: spend_step_def)

lemma spend_step_update:
  assumes "a > 0" and "map_of (readable rs) ls = Some rcd"
  shows "spend_step S rm mn y (existingByLeadSource rs) (existing_prototype rs) (st, ds, None) (ls, a)
     = (store_update row_id (row_id rcd) (set_adSpend (S a)) st,
        ds @ [\<lparr>d_leadSource = ls, d_adSpend = a, d_action = Updated, d_recordId = row_id rcd\<rparr>],
        None)"
  using assms by (simp add: spend_step_def existing_lookup_readable)

lemma spend_step_raise:
  assumes "a > 0" and "map_of (readable rs) ls = None" and "blocked rm (readable rs) ls"
  shows "spend_step S rm mn y (existingByLeadSource rs) (existing_prototype rs) (st, ds, None) (ls, a)
     = (st, ds, Some TypeError)"
  using assms by (simp add: spend_step_def existing_lookup_readable)

lemma spend_step_create:
  assumes "a > 0" and "map_of (readable rs) ls = None" and "\<not> blocked rm (readable rs) ls"
  shows "spend_step S rm mn y (existingByLeadSource rs) (existing_prototype rs) (st, ds, None) (ls, a)
     = (st\<lparr>rows := rows st @ [new_row mn y ls (S a) (next_id st)], next_id := Suc (next_id st)\<rparr>,
        ds @ [\<lparr>d_leadSource = ls, d_adSpend = a, d_action = Created, d_recordId = next_id st\<rparr>],
        None)"
  using assms by (simp add: spend_step_def existing_lookup_readable store_create_def new_row_def)

lemma zero_loop_rows:
  "rows (fst (foldl (zero_step m) (st, ds, None) es)) = map (patch_all (zero_writes m es)) (rows st)
   \<and> next_id (fst (foldl (zero_step m) (st, ds, None) es)) = next_id st
   \<and> snd (snd (foldl (zero_step m) (st, ds, None) es)) = None"
proof (induction es arbitrary: st ds)
  case Nil
  then show ?case by (simp add: zero_writes_def)
next
  case (Cons e es)
  obtain ls rcd where e: "e = (ls, rcd)" by (cases e)
  show ?case
  proof (cases "no_spend m ls")
    case True
    then have step: "zero_step m (st, ds, None) e
        = (store_update row_id (row_id rcd) (set_adSpend ''0'') st,
           ds @ [\<lparr>d_leadSource = ls, d_adSpend = 0, d_action = Zeroed, d_recordId = row_id rcd\<rparr>],
           None)"
      by (simp add: zero_step_def e)
    have zw: "zero_writes m (e # es) = (row_id rcd, ''0'') # zero_writes m es"
      using True by (simp add: zero_writes_def e)
    show ?thesis
      by (simp add: step Cons.IH rows_store_update zw patch_all_Cons o_def)
  next
    case False
    then have step: "zero_step m (st, ds, None) e = (st, ds, None)"
      by (simp add: zero_step_def e)
    have zw: "zero_writes m (e # es) = zero_writes m es"
      using False by (simp add: zero_writes_def e)
    show ?thesis
      by (simp add: step Cons.IH zw)
  qed
qed

lemma created_rows_Nil [simp]: "created_rows S mn y n [] = []"
  by (simp add: created_rows_def)




lemma spend_loop_origin:
  "\<forall>r1 \<in> set (rows (fst (foldl (spend_step S rm mn y (existingByLeadSource rs) (existing_prototype rs))
                              (st, ds, f) es))).
     (\<exists>r0 \<in> set (rows st). keys_of r0 = keys_of r1)
     \<or> (\<exists>a. (rLeadSource r1, a) \<in> set es \<and> a > 0)"
proof (induction es arbitrary: st ds f)
  case Nil
  then show ?case by auto
next
  case (Cons e es)
  define step where "step = spend_step S rm mn y (existingByLeadSource rs) (existing_prototype rs)"
  obtain ls a where e: "e = (ls, a)" by (cases e)
  obtain st' ds' f' where step': "step (st, ds, f) e = (st', ds', f')"
    by (cases "step (st, ds, f) e")
  have origin: "\<forall>r \<in> set (rows st').
      (\<exists>r0 \<in> set (rows st). keys_of r0 = keys_of r) \<or> (rLeadSource r = ls \<and> a > 0)"
  proof (cases f)
    case (Some err)
    with step' have "st' = st" by (simp add: step_def)
    then show ?thesis by auto
  next
    case None
    show ?thesis
    proof (cases "a > 0")
      case False
      with step' e None have "st' = st" by (simp add: step_def spend_step_skip)
      then show ?thesis by auto
    next
      case pos: True
      show ?thesis
      proof (cases "map_of (readable rs) ls")
        case (Some rcd)
        from spend_step_update [OF pos Some, of S rm mn y st ds] step' e None
        have "st' = store_update row_id (row_id rcd) (set_adSpend (S a)) st"
          by (simp add: step_def)
        then have "rows st' = map (\<lambda>r. if row_id r = row_id rcd then set_adSpend (S a) r else r) (rows st)"
          by (simp add: rows_store_update)
        then show ?thesis by auto
      next
        case none: None
        show ?thesis
        proof (cases "blocked rm (readable rs) ls")
          case True
          from spend_step_raise [OF pos none True, of S mn y st ds] step' e None
          have "st' = st" by (simp add: step_def)
          then show ?thesis by auto
        next
          case False
          from spend_step_create [OF pos none False, of S mn y st ds] step' e None
          have "rows st' = rows st @ [new_row mn y ls (S a) (next_id st)]"
            by (auto simp: step_def)
          with pos show ?thesis by (auto simp: new_row_def)
        qed
      qed
    qed
  qed
  show ?case
  proof
    fix r1
    assume "r1 \<in> set (rows (fst (foldl (spend_step S rm mn y (existingByLeadSource rs)
                                          (existing_prototype rs)) (st, ds, f) (e # es))))"
    then have "r1 \<in> set (rows (fst (foldl (spend_step S rm mn y (existingByLeadSource rs)
                                          (existing_prototype rs)) (st', ds', f') es)))"
      using step' by (simp add: step_def)
    with Cons.IH [of st' ds' f']
    consider r where "r \<in> set (rows st')" "keys_of r = keys_of r1"
      | a' where "(rLeadSource r1, a') \<in> set es" "a' > 0"
      by blast
    then show "(\<exists>r0 \<in> set (rows st). keys_of r0 = keys_of r1)
               \<or> (\<exists>a. (rLeadSource r1, a) \<in> set (e # es) \<and> a > 0)"
    proof cases
      case 1
      with origin have "(\<exists>r0 \<in> set (rows st). keys_of r0 = keys_of r) \<or> (rLeadSource r = ls \<and> a > 0)"
        by blast
      then show ?thesis
      proof
        assume "\<exists>r0 \<in> set (rows st). keys_of r0 = keys_of r"
        with 1 show ?thesis by auto
      next
        assume "rLeadSource r = ls \<and> a > 0"
        moreover from 1 have "rLeadSource r1 = rLeadSource r" by (simp add: keys_of_def)
        ultimately show ?thesis using e by auto
      qed
    next
      case 2
      then show ?thesis by auto
    qed
  qed
qed








lemma zero_writes_snd: "w \<in> set (zero_writes m ex) \<Longrightarrow> snd w = ''0''"
  by (auto simp: zero_writes_def)




lemma applyAdSpend_unfold:
  "applyAdSpend S rm mn y m st
     = foldl (zero_step m)
         (foldl (spend_step S rm mn y (existingByLeadSource (store_select (in_period mn y) 100 st))
                   (existing_prototype (store_select (in_period mn y) 100 st)))
            (st, [], None) m)
         (existingByLeadSource (store_select (in_period mn y) 100 st))"
  by (simp add: applyAdSpend_def Let_def)

lemma no_spend_zero:
  "\<not> inherited ls \<Longrightarrow> or0 (map_of m ls) = 0 \<Longrightarrow> no_spend m ls"
  by (simp add: no_spend_def or0_def split: option.splits)

text \<open>
  The second loop reaches every record of the month that the first loop did not write,
  when the month fits the page and has one record for each lead source.
\<close>

lemma zeroed_row:
  assumes page: "fits_page mn y st"
      and uniq: "one_record_per_source mn y st"
      and keys: "distinct (map fst m)"
      and completed: "snd (snd (applyAdSpend S rm mn y m st)) = None"
      and r': "r' \<in> set (rows (fst (applyAdSpend S rm mn y m st)))"
      and per: "in_period mn y r'" and src: "rLeadSource r' \<noteq> []"
      and own: "\<not> inherited (rLeadSource r')"
      and none: "or0 (map_of m (rLeadSource r')) = 0"
  shows "rAdSpend r' = ''0''"
proof -
  define P where "P = in_period mn y"
  define L where "L = store_select P 100 st"
  define ex where "ex = existingByLeadSource L"
  define rd where "rd = readable L"
  obtain st1 ds1 f1
    where loop1: "foldl (spend_step S rm mn y ex (existing_prototype L)) (st, [], None) m = (st1, ds1, f1)"
    by (cases "foldl (spend_step S rm mn y ex (existing_prototype L)) (st, [], None) m")
  have unfold: "applyAdSpend S rm mn y m st = foldl (zero_step m) (st1, ds1, f1) ex"
    by (simp add: applyAdSpend_unfold P_def [symmetric] L_def [symmetric] ex_def [symmetric] loop1)
  have f1: "f1 = None"
  proof (cases f1)
    case None
    then show ?thesis .
  next
    case (Some e)
    with unfold completed show ?thesis by simp
  qed
  have rows2: "rows (fst (applyAdSpend S rm mn y m st)) = map (patch_all (zero_writes m ex)) (rows st1)"
    using zero_loop_rows [of m st1 ds1 ex] by (simp add: unfold f1)
  with r' obtain r1 where r1: "r1 \<in> set (rows st1)" and r'r1: "r' = patch_all (zero_writes m ex) r1"
    by auto
  have k1: "keys_of r' = keys_of r1" by (simp add: r'r1)
  from spend_loop_origin [of S rm mn y L st "[]" None m] loop1 r1
  have "(\<exists>r0 \<in> set (rows st). keys_of r0 = keys_of r1) \<or> (\<exists>a. (rLeadSource r1, a) \<in> set m \<and> a > 0)"
    by (simp add: ex_def)
  moreover have "\<not> (\<exists>a. (rLeadSource r1, a) \<in> set m \<and> a > 0)"
  proof
    assume "\<exists>a. (rLeadSource r1, a) \<in> set m \<and> a > 0"
    then obtain a where "(rLeadSource r1, a) \<in> set m" and "a > 0" by blast
    with keys have "map_of m (rLeadSource r1) = Some a" by simp
    moreover from k1 have "rLeadSource r1 = rLeadSource r'" by (simp add: keys_of_def)
    ultimately show False using none \<open>a > 0\<close> by (simp add: or0_def)
  qed
  ultimately obtain r0 where r0: "r0 \<in> set (rows st)" and k0: "keys_of r0 = keys_of r1"
    by blast
  from k0 k1 have same: "row_id r0 = row_id r1" "rLeadSource r0 = rLeadSource r'" "in_period mn y r0 = in_period mn y r'"
    by (simp_all add: keys_of_def in_period_def)
  have sel: "L = filter P (rows st)"
    using page by (simp add: L_def store_select_def fits_page_def P_def)
  have r0P: "r0 \<in> set (filter P (rows st))"
    using r0 per same by (simp add: P_def)
  have "distinct (map rLeadSource (filter (\<lambda>r. rLeadSource r \<noteq> []) (filter P (rows st))))"
    using uniq by (simp add: one_record_per_source_def P_def conj_commute)
  moreover have "rLeadSource r0 \<noteq> []"
    using src same(2) by simp
  moreover have "\<forall>z \<in> set (filter P (rows st)). rLeadSource z = rLeadSource r0 \<longrightarrow> rLeadSource z \<noteq> []"
    using src same(2) by simp
  ultimately have "find (\<lambda>z. rLeadSource z = rLeadSource r0) (rev (filter P (rows st))) = Some r0"
    using r0P
    by (intro find_unique [where Q = "\<lambda>r. rLeadSource r \<noteq> []" and f = rLeadSource
          and xs = "filter P (rows st)" and x = r0])
  then have "map_of rd (rLeadSource r0) = Some r0"
    using src same(2) by (simp add: rd_def sel map_of_readable)
  moreover have "rLeadSource r0 \<noteq> ''__proto__''"
    using own same(2) inherited_proto by auto
  ultimately have "(rLeadSource r0, r0) \<in> set ex"
    by (simp add: ex_def rd_def existing_entry_iff)
  moreover have "no_spend m (rLeadSource r0)"
    using no_spend_zero [OF own none] same(2) by simp
  ultimately have "(row_id r0, ''0'') \<in> set (zero_writes m ex)"
    by (force simp: zero_writes_def)
  then have "row_id r1 \<in> fst ` set (zero_writes m ex)"
    using same(1) by force
  moreover have "\<forall>w \<in> set (zero_writes m ex). fst w = row_id r1 \<longrightarrow> snd w = ''0''"
    by (auto simp: zero_writes_def)
  ultimately show ?thesis
    unfolding r'r1 by (rule patch_all_const)
qed


text \<open>The refresh completes when no key of the input is the name of an inherited member.\<close>

lemma spend_loop_completes:
  assumes "\<forall>e \<in> set es. runs rm (readable rs) e"
  shows "snd (snd (foldl (spend_step S rm mn y (existingByLeadSource rs) (existing_prototype rs))
                     (st, ds, None) es)) = None"
  using assms
proof (induction es arbitrary: st ds)
  case Nil
  then show ?case by simp
next
  case (Cons e es)
  obtain ls a where e: "e = (ls, a)" by (cases e)
  from Cons.prems have run: "runs rm (readable rs) (ls, a)" by (simp add: e)
  have "\<exists>st' ds'. spend_step S rm mn y (existingByLeadSource rs) (existing_prototype rs) (st, ds, None) e
                    = (st', ds', None)"
  proof (cases "a > 0")
    case False
    then show ?thesis by (simp add: e spend_step_skip)
  next
    case pos: True
    show ?thesis
    proof (cases "map_of (readable rs) ls")
      case (Some rcd)
      from spend_step_update [OF pos Some] show ?thesis by (simp add: e)
    next
      case None
      with run pos have "\<not> blocked rm (readable rs) ls" by (simp add: runs_def)
      from spend_step_create [OF pos None this] show ?thesis by (simp add: e)
    qed
  qed
  then obtain st' ds'
    where "spend_step S rm mn y (existingByLeadSource rs) (existing_prototype rs) (st, ds, None) e
             = (st', ds', None)"
    by blast
  moreover from Cons.prems have "\<forall>e \<in> set es. runs rm (readable rs) e" by simp
  ultimately show ?case using Cons.IH [of st' ds'] by simp
qed

lemma refresh_completes:
  assumes "\<forall>e \<in> set m. \<not> inherited (fst e) \<and> \<not> rm (fst e)"
  shows "snd (snd (applyAdSpend S rm mn y m st)) = None"
proof -
  define L where "L = store_select (in_period mn y) 100 st"
  have "\<forall>e \<in> set m. runs rm (readable L) e"
    using assms by (auto simp: runs_def blocked_def split: option.splits)
  from spend_loop_completes [OF this, of S mn y st "[]"]
  obtain st1 ds1 where "foldl (spend_step S rm mn y (existingByLeadSource L) (existing_prototype L))
                          (st, [], None) m = (st1, ds1, None)"
    by (cases "foldl (spend_step S rm mn y (existingByLeadSource L) (existing_prototype L))
                 (st, [], None) m") auto
  with zero_loop_rows [of m st1 ds1 "existingByLeadSource L"] show ?thesis
    by (simp add: applyAdSpend_unfold L_def)
qed

text \<open>The spend by category that the handler builds from the expenses.\<close>

lemma map_fst_map_entry: "map fst (AList.map_entry k f xs) = map fst xs"
  by (induction xs) auto

lemma mapping_values:
  "(key, v) \<in> set account_mapping \<Longrightarrow> v \<noteq> [] \<and> \<not> inherited v"
  by (auto simp: account_mapping_def inherited_def object_prototype_def)

lemma member_text_plain: "member_text name \<noteq> [] \<and> \<not> inherited (member_text name)"
  by (simp add: member_text_def inherited_def object_prototype_def)

lemma mapAccount_plain:
  assumes "accountName \<noteq> []"
  shows "mapAccountToLeadSource accountName \<noteq> [] \<and> \<not> inherited (mapAccountToLeadSource accountName)"
proof (cases "map_of account_mapping accountName")
  case (Some v)
  then have "(accountName, v) \<in> set account_mapping" by (rule map_of_SomeD)
  from mapping_values [OF this] Some show ?thesis
    by (simp add: mapAccountToLeadSource_def)
next
  case None
  show ?thesis
  proof (cases "inherited accountName")
    case True
    with None member_text_plain [of accountName] show ?thesis
      by (simp add: mapAccountToLeadSource_def)
  next
    case False
    define Q where "Q = (\<lambda>(key, v :: string). str_includes (toLowerCase accountName) (toLowerCase key)
                            \<or> str_includes (toLowerCase key) (toLowerCase accountName))"
    show ?thesis
    proof (cases "find Q account_mapping")
      case inner: None
      with None False assms show ?thesis
        by (simp add: mapAccountToLeadSource_def Let_def Q_def)
    next
      case inner: (Some kv)
      obtain key v where kv: "kv = (key, v)" by (cases kv)
      from find_SomeD [OF inner] kv have "(key, v) \<in> set account_mapping" by simp
      from mapping_values [OF this] None False inner kv show ?thesis
        by (simp add: mapAccountToLeadSource_def Let_def Q_def)
    qed
  qed
qed

lemma mapAccount_not_inherited: "\<not> inherited (mapAccountToLeadSource accountName)"
proof (cases "accountName = []")
  case False
  then show ?thesis by (simp add: mapAccount_plain)
next
  case True
  have "map_of account_mapping [] = None" by (simp add: account_mapping_def)
  moreover have "\<not> inherited []" by (simp add: inherited_def object_prototype_def)
  moreover have "\<not> inherited v" if "(key, v) \<in> set account_mapping" for key v
    using mapping_values [OF that] by simp
  ultimately show ?thesis
    using True
    by (auto simp: mapAccountToLeadSource_def Let_def split: option.splits dest!: find_SomeD)
qed

lemma expense_step_ok:
  assumes "spend_map_ok (fst acc)" and "\<forall>k \<in> fst ` set (fst acc). \<not> inherited k"
  shows "spend_map_ok (fst (expense_step acc ex))
       \<and> (\<forall>k \<in> fst ` set (fst (expense_step acc ex)). \<not> inherited k)"
proof -
  obtain byCategory t where acc: "acc = (byCategory, t)" by (cases acc)
  define accountName where "accountName = (if truthy_str (ex_AccountRef_name ex)
                              then or_empty (ex_AccountRef_name ex) else ''Uncategorized'')"
  define ls where "ls = mapAccountToLeadSource accountName"
  define m1 where "m1 = (if or0 (map_of byCategory ls) = 0 then AList.update ls 0 byCategory else byCategory)"
  have "accountName \<noteq> []"
    by (auto simp: accountName_def truthy_str_def or_empty_def split: option.splits)
  from mapAccount_plain [OF this] have ls: "ls \<noteq> []" and plain: "\<not> inherited ls"
    by (simp_all add: ls_def)
  from assms acc have d: "distinct (map fst byCategory)" and n: "[] \<notin> fst ` set byCategory"
    and p: "\<forall>k \<in> fst ` set byCategory. \<not> inherited k"
    by (simp_all add: spend_map_ok_def)
  have keys_m1: "fst ` set m1 \<subseteq> insert ls (fst ` set byCategory)"
    by (simp add: m1_def dom_update) blast
  have "\<forall>k \<in> fst ` set m1. \<not> inherited k"
    using keys_m1 p plain by blast
  moreover have "distinct (map fst m1)" "[] \<notin> fst ` set m1"
    using d n ls by (auto simp: m1_def distinct_update dom_update)
  moreover have "fst (expense_step acc ex) = AList.map_entry ls (\<lambda>v. v + or0 (ex_TotalAmt ex)) m1"
    by (simp add: expense_step_def acc Let_def m1_def ls_def accountName_def)
  moreover have "fst ` set (AList.map_entry ls f m1) = fst ` set m1" for f :: "rat \<Rightarrow> rat"
    using map_fst_map_entry [of ls f m1] by (metis list.set_map)
  ultimately show ?thesis
    by (simp add: spend_map_ok_def map_fst_map_entry)
qed

lemma process_expenses_ok:
  "spend_map_ok (fst (process_expenses expenses))
   \<and> (\<forall>k \<in> fst ` set (fst (process_expenses expenses)). \<not> inherited k)"
proof (induction expenses rule: rev_induct)
  case Nil
  then show ?case by (simp add: process_expenses_def spend_map_ok_def)
next
  case (snoc ex expenses)
  have "process_expenses (expenses @ [ex]) = expense_step (process_expenses expenses) ex"
    by (simp add: process_expenses_def)
  with expense_step_ok [of "process_expenses expenses" ex] snoc show ?case by simp
qed

lemma handler_spend_map_ok:
  "spend_map_ok (adSpendByCategory (quickbooks_adSpend qbConnected fetch year month))
   \<and> (\<forall>k \<in> fst ` set (adSpendByCategory (quickbooks_adSpend qbConnected fetch year month)).
         \<not> inherited k)"
proof -
  have e: "spend_map_ok []" by (simp add: spend_map_ok_def)
  have "spend_map_ok (adSpendByCategory (case process_expenses expenses of
          (byCategory, spendTotal) \<Rightarrow>
            \<lparr>totalAdSpend = spendTotal, adSpendByCategory = byCategory, message = ''Found expenses''\<rparr>))
        \<and> (\<forall>k \<in> fst ` set (adSpendByCategory (case process_expenses expenses of
          (byCategory, spendTotal) \<Rightarrow>
            \<lparr>totalAdSpend = spendTotal, adSpendByCategory = byCategory, message = ''Found expenses''\<rparr>)).
              \<not> inherited k)"
    for expenses
    using process_expenses_ok [of expenses] by (cases "process_expenses expenses") simp
  with e show ?thesis
    by (simp add: quickbooks_adSpend_def Let_def split: sum.split)
qed

lemma not_inherited_A: "\<not> inherited ''A''"
  by (simp add: inherited_def object_prototype_def)

lemma from_empty_then_nothing:
  "map rAdSpend (rows (fst (applyAdSpend S rm mn y []
      (fst (applyAdSpend S rm mn y [(''A'', 100)] \<lparr>rows = [], next_id = n\<rparr>))))) = [''0'']"
  by (simp add: applyAdSpend_def Let_def store_select_def existingByLeadSource_def
      existing_prototype_def existing_lookup_def spend_step_def
      store_create_def new_row_def in_period_def zero_step_def no_spend_def not_inherited_A
      store_update_def set_adSpend_def)


text \<open>
  C5, as the code has it. When the month's records fit in the page of 100 the refresh
  reads, no lead source has two records in the month, and the refresh completes (no
  exception leaves its first loop), then after the refresh every record of the month
  whose lead source has zero or no spend in the input has ad spend \<open>'0'\<close>, provided
  the lead source is not named like a member of \<open>Object.prototype\<close>. Applying A: 100
  and then the empty input to an empty table leaves the one record of A at \<open>'0'\<close>.
\<close>

theorem stale_spend_is_zeroed:
  assumes "fits_page mn y st" and "one_record_per_source mn y st" and "distinct (map fst m)"
      and "snd (snd (applyAdSpend S recordHas mn y m st)) = None"
  shows "(\<forall>r \<in> set (rows (fst (applyAdSpend S recordHas mn y m st))).
            in_period mn y r \<and> rLeadSource r \<noteq> [] \<and> \<not> inherited (rLeadSource r)
              \<and> or0 (map_of m (rLeadSource r)) = 0
              \<longrightarrow> rAdSpend r = ''0'')
       \<and> map rAdSpend (rows (fst (applyAdSpend S recordHas mn y []
             (fst (applyAdSpend S recordHas mn y [(''A'', 100)] \<lparr>rows = [], next_id = n\<rparr>))))) = [''0'']"
  using zeroed_row [OF assms] from_empty_then_nothing by blast

text \<open>One record of A at 100, refreshed with the empty input.\<close>

theorem stale_spend_is_zeroed_witness:
  "fits_page ''January'' ''2025'' one_record
   \<and> one_record_per_source ''January'' ''2025'' one_record
   \<and> snd (snd (applyAdSpend String_int record_has ''January'' ''2025'' [] one_record)) = None
   \<and> map rAdSpend (rows (refresh [] one_record)) = [''0'']"
proof -
  have a: "fits_page ''January'' ''2025'' one_record"
    by (simp add: fits_page_def one_record_def)
  have b: "one_record_per_source ''January'' ''2025'' one_record"
    by (simp add: one_record_per_source_def one_record_def)
  have c: "distinct (map fst ([] :: (string \<times> rat) list))" by simp
  have d: "snd (snd (applyAdSpend String_int record_has ''January'' ''2025'' [] one_record)) = None"
    by (rule refresh_completes) simp
  have rows: "map (\<lambda>r. (in_period ''January'' ''2025'' r, rLeadSource r)) (rows (refresh [] one_record))
                = [(True, ''A'')]"
    by (simp add: refresh_def applyAdSpend_def Let_def store_select_def existingByLeadSource_def
      one_record_def new_row_def in_period_def zero_step_def no_spend_def not_inherited_A
      store_update_def set_adSpend_def)
  then obtain r where r: "rows (refresh [] one_record) = [r]"
    and p: "in_period ''January'' ''2025'' r" and s: "rLeadSource r = ''A''"
    by auto
  from stale_spend_is_zeroed [OF a b c d, of 1] r p s
  have "rAdSpend r = ''0''"
    by (simp add: refresh_def or0_def not_inherited_A)
  with a b d r show ?thesis by simp
qed

text \<open>
  C5 as stated fails. Of two records of one lead source only the last is zeroed; and a
  record beyond the first 100 of its month is not read, so its spend survives.
\<close>

theorem stale_spend_survives:
  "map rAdSpend (rows (refresh [] two_records)) = [''100'', ''0'']
   \<and> rLeadSource (last (rows (refresh [] (refresh [(''A'', 100)] crowded)))) = ''A''
   \<and> rAdSpend (last (rows (refresh [] (refresh [(''A'', 100)] crowded)))) = ''100''"
  by code_simp

text \<open>
  A record whose lead source is \<open>constructor\<close> is not zeroed either: the test
  \<open>!adSpendByCategory[leadSource]\<close> finds the inherited member of that name.
\<close>

lemma inherited_source_keeps_spend:
  "map rAdSpend (rows (refresh [] constructor_record)) = [''100'']"
  by code_simp




end
